theory Spec2Isabelle
  imports Main "HOL-Library.Word"
begin

unbundle bit_operations_syntax

section \<open>Hardware events\<close>

text \<open>
  The drivers never read anything back from the display and talk to the touch controller
  only through the blocking I2C calls of the board SDK. Every call into the SDK (and into
  the rendering engine) is recorded, in program order, as one event of a log; the log is
  the observable behaviour of a driver function.
\<close>

type_synonym u8 = "8 word"
type_synonym u16 = "16 word"
type_synonym u32 = "32 word"

datatype gpio_function = GPIO_FUNC_SPI | GPIO_FUNC_I2C

datatype hw_event =
    GpioPut nat bool                \<comment> \<open>\<^verbatim>\<open>gpio_put(pin, level)\<close>\<close>
  | GpioSetFunction nat gpio_function  \<comment> \<open>\<^verbatim>\<open>gpio_set_function(pin, fn)\<close>\<close>
  | GpioPullUp nat                  \<comment> \<open>\<^verbatim>\<open>gpio_pull_up(pin)\<close>\<close>
  | SleepUs nat                     \<comment> \<open>\<^verbatim>\<open>sleep_us(n)\<close>\<close>
  | SleepMs nat                     \<comment> \<open>\<^verbatim>\<open>sleep_ms(n)\<close>\<close>
  | SpiWrite "u8 list"              \<comment> \<open>\<^verbatim>\<open>spi_write_blocking(port, src, len)\<close>: the bytes sent\<close>
  | I2cInit nat                     \<comment> \<open>\<^verbatim>\<open>i2c_init(port, baudrate)\<close>\<close>
  | I2cWrite u8 "u8 list" bool      \<comment> \<open>\<^verbatim>\<open>i2c_write_blocking(port, addr, src, len, nostop)\<close>\<close>
  | I2cRead u8 nat bool             \<comment> \<open>\<^verbatim>\<open>i2c_read_blocking(port, addr, dst, len, nostop)\<close>\<close>
  | LvFlushReady                    \<comment> \<open>\<^verbatim>\<open>lv_disp_flush_ready(disp_drv)\<close>\<close>

section \<open>ST7796 display driver (st7796.h, st7796.c)\<close>

definition ST7796_PIN_CS :: nat where "ST7796_PIN_CS = 5"
definition ST7796_PIN_DC :: nat where "ST7796_PIN_DC = 6"
definition ST7796_PIN_RST :: nat where "ST7796_PIN_RST = 7"

definition ST7796_CMD_CASET :: u8 where "ST7796_CMD_CASET = 0x2A"
definition ST7796_CMD_RASET :: u8 where "ST7796_CMD_RASET = 0x2B"
definition ST7796_CMD_RAMWR :: u8 where "ST7796_CMD_RAMWR = 0x2C"
definition ST7796_CMD_MADCTL :: u8 where "ST7796_CMD_MADCTL = 0x36"

datatype st7796_orientation_t =
    ST7796_PORTRAIT
  | ST7796_LANDSCAPE
  | ST7796_PORTRAIT_INV
  | ST7796_LANDSCAPE_INV

text \<open>
  The state of the display side: the static \<^verbatim>\<open>current_orientation\<close> of st7796.c, the
  static \<^verbatim>\<open>disp_flush_enabled\<close> of lv_port_disp.c, and the event log.
\<close>

record disp_world =
  current_orientation :: st7796_orientation_t
  disp_flush_enabled :: bool
  wire :: "hw_event list"

definition emit :: "hw_event list \<Rightarrow> disp_world \<Rightarrow> disp_world" where
  "emit es s = s\<lparr>wire := wire s @ es\<rparr>"

text \<open>The control-line macros of st7796.c.\<close>

definition LCD_CS_LOW :: "disp_world \<Rightarrow> disp_world" where
  "LCD_CS_LOW = emit [GpioPut ST7796_PIN_CS False]"
definition LCD_CS_HIGH :: "disp_world \<Rightarrow> disp_world" where
  "LCD_CS_HIGH = emit [GpioPut ST7796_PIN_CS True]"
definition LCD_DC_CMD :: "disp_world \<Rightarrow> disp_world" where
  "LCD_DC_CMD = emit [GpioPut ST7796_PIN_DC False]"
definition LCD_DC_DATA :: "disp_world \<Rightarrow> disp_world" where
  "LCD_DC_DATA = emit [GpioPut ST7796_PIN_DC True]"

definition sleep_us :: "nat \<Rightarrow> disp_world \<Rightarrow> disp_world" where
  "sleep_us n = emit [SleepUs n]"

text \<open>
  \<^verbatim>\<open>spi_write_blocking(port, src, len)\<close> of the board SDK sends the first \<open>len\<close> bytes of
  the buffer; the buffer is the list of the bytes stored at \<open>src\<close>.
\<close>

definition spi_write_blocking :: "u8 list \<Rightarrow> nat \<Rightarrow> disp_world \<Rightarrow> disp_world" where
  "spi_write_blocking src len = emit [SpiWrite (take len src)]"

definition st7796_write_cmd :: "u8 \<Rightarrow> disp_world \<Rightarrow> disp_world" where
  "st7796_write_cmd cmd s =
     (let s = LCD_CS_LOW s;
          s = LCD_DC_CMD s;
          s = sleep_us 1 s;
          s = spi_write_blocking [cmd] 1 s;
          s = sleep_us 1 s
      in LCD_CS_HIGH s)"

text \<open>A buffer pointer is \<open>Some\<close> of the bytes it points to, or \<open>None\<close> for \<^verbatim>\<open>NULL\<close>.\<close>

definition st7796_write_data :: "u8 list option \<Rightarrow> u16 \<Rightarrow> disp_world \<Rightarrow> disp_world" where
  "st7796_write_data data len s =
     (case data of
        None \<Rightarrow> s
      | Some buf \<Rightarrow>
          if len = 0 then s
          else
            (let s = LCD_CS_LOW s;
                 s = LCD_DC_DATA s;
                 s = sleep_us 1 s;
                 s = spi_write_blocking buf (unat len) s;
                 s = sleep_us 1 s
             in LCD_CS_HIGH s))"

text \<open>
  The \<^verbatim>\<open>switch\<close> of \<^verbatim>\<open>st7796_set_orientation\<close> that fills the local
  \<^verbatim>\<open>madctl_value\<close>. Its \<^verbatim>\<open>default\<close> label (\<^verbatim>\<open>0x48\<close>) is reached by none of the four
  enumerators.
\<close>

definition madctl_value :: "st7796_orientation_t \<Rightarrow> u8" where
  "madctl_value orientation =
     (case orientation of
        ST7796_PORTRAIT \<Rightarrow> 0x48
      | ST7796_LANDSCAPE \<Rightarrow> 0x28
      | ST7796_PORTRAIT_INV \<Rightarrow> 0x88
      | ST7796_LANDSCAPE_INV \<Rightarrow> 0xE8)"

definition st7796_set_orientation :: "st7796_orientation_t \<Rightarrow> disp_world \<Rightarrow> disp_world" where
  "st7796_set_orientation orientation s =
     (let s = s\<lparr>current_orientation := orientation\<rparr>;
          s = st7796_write_cmd ST7796_CMD_MADCTL s;
          s = LCD_CS_LOW s;
          s = LCD_DC_DATA s;
          s = spi_write_blocking [madctl_value orientation] 1 s
      in LCD_CS_HIGH s)"

text \<open>\<^verbatim>\<open>(v >> 8) & 0xFF\<close> and \<^verbatim>\<open>v & 0xFF\<close>, stored into a \<^verbatim>\<open>uint8_t\<close>.\<close>

definition hi_byte :: "u16 \<Rightarrow> u8" where
  "hi_byte v = ucast (drop_bit 8 v AND 0xFF)"

definition lo_byte :: "u16 \<Rightarrow> u8" where
  "lo_byte v = ucast (v AND 0xFF)"

definition st7796_set_window :: "u16 \<Rightarrow> u16 \<Rightarrow> u16 \<Rightarrow> u16 \<Rightarrow> disp_world \<Rightarrow> disp_world" where
  "st7796_set_window x1 y1 x2 y2 s =
     (let s = st7796_write_cmd ST7796_CMD_CASET s;
          s = st7796_write_data (Some [hi_byte x1, lo_byte x1, hi_byte x2, lo_byte x2]) 4 s;
          s = st7796_write_cmd ST7796_CMD_RASET s;
          s = st7796_write_data (Some [hi_byte y1, lo_byte y1, hi_byte y2, lo_byte y2]) 4 s
      in st7796_write_cmd ST7796_CMD_RAMWR s)"

text \<open>
  \<^verbatim>\<open>st7796_write_color(color, len)\<close>: \<open>color\<close> is the pixel buffer seen through the
  cast \<^verbatim>\<open>(const uint8_t *)color\<close>, that is the bytes of the array as they lie in memory,
  two per pixel. The byte count \<^verbatim>\<open>len * 2\<close> is computed in \<^verbatim>\<open>uint32_t\<close>.
\<close>

definition st7796_write_color :: "u8 list option \<Rightarrow> u32 \<Rightarrow> disp_world \<Rightarrow> disp_world" where
  "st7796_write_color color len s =
     (case color of
        None \<Rightarrow> s
      | Some buf \<Rightarrow>
          if len = 0 then s
          else
            (let s = LCD_CS_LOW s;
                 s = LCD_DC_DATA s;
                 s = spi_write_blocking buf (unat (len * 2)) s
             in LCD_CS_HIGH s))"

text \<open>What a driver call added to the log, and the bytes that went over the SPI bus.\<close>

definition emitted :: "disp_world \<Rightarrow> disp_world \<Rightarrow> hw_event list" where
  "emitted s s' = drop (length (wire s)) (wire s')"

fun spi_bytes :: "hw_event list \<Rightarrow> u8 list" where
  "spi_bytes [] = []"
| "spi_bytes (SpiWrite bs # es) = bs @ spi_bytes es"
| "spi_bytes (e # es) = spi_bytes es"

text \<open>
  The SPI transfers of a log, each with the level of the data/command line at the time:
  \<open>False\<close> a command byte, \<open>True\<close> payload. The first argument is the level the line
  has before the log starts.
\<close>

fun spi_frames :: "bool \<Rightarrow> hw_event list \<Rightarrow> (bool \<times> u8 list) list" where
  "spi_frames dc [] = []"
| "spi_frames dc (GpioPut pin v # es) =
     (if pin = ST7796_PIN_DC then spi_frames v es else spi_frames dc es)"
| "spi_frames dc (SpiWrite bs # es) = (dc, bs) # spi_frames dc es"
| "spi_frames dc (e # es) = spi_frames dc es"

section \<open>Display bridge (lv_port_disp.c)\<close>

text \<open>
  \<^verbatim>\<open>lv_area_t\<close> of the rendering engine: inclusive corners, each an \<^verbatim>\<open>lv_coord_t\<close>
  (\<^verbatim>\<open>int16_t\<close>).
\<close>

record lv_area_t =
  area_x1 :: u16
  area_y1 :: u16
  area_x2 :: u16
  area_y2 :: u16

text \<open>
  Modelled from the spec: the rendering engine's \<^verbatim>\<open>lv_area_get_width\<close> and
  \<^verbatim>\<open>lv_area_get_height\<close> are not part of the repository. The area has inclusive bounds,
  so its width is \<^verbatim>\<open>(lv_coord_t)(x2 - x1 + 1)\<close> and its height \<^verbatim>\<open>(lv_coord_t)(y2 - y1 + 1)\<close>.
\<close>

definition lv_area_get_width :: "lv_area_t \<Rightarrow> u16" where
  "lv_area_get_width a = word_of_int (sint (area_x2 a) - sint (area_x1 a) + 1)"

definition lv_area_get_height :: "lv_area_t \<Rightarrow> u16" where
  "lv_area_get_height a = word_of_int (sint (area_y2 a) - sint (area_y1 a) + 1)"

definition lv_disp_flush_ready :: "disp_world \<Rightarrow> disp_world" where
  "lv_disp_flush_ready = emit [LvFlushReady]"

definition disp_enable_update :: "disp_world \<Rightarrow> disp_world" where
  "disp_enable_update s = s\<lparr>disp_flush_enabled := True\<rparr>"

definition disp_disable_update :: "disp_world \<Rightarrow> disp_world" where
  "disp_disable_update s = s\<lparr>disp_flush_enabled := False\<rparr>"

text \<open>
  \<^verbatim>\<open>disp_flush(disp_drv, area, color_p)\<close>. The driver handle is only passed on to
  \<^verbatim>\<open>lv_disp_flush_ready\<close> and is left out; \<open>color_p\<close> is the pixel buffer as bytes. The
  two \<^verbatim>\<open>lv_coord_t\<close> operands of the product are promoted to \<^verbatim>\<open>int\<close>; the product is
  then converted to \<^verbatim>\<open>uint32_t\<close>.
\<close>

definition disp_flush :: "lv_area_t \<Rightarrow> u8 list option \<Rightarrow> disp_world \<Rightarrow> disp_world" where
  "disp_flush area color_p s =
     (if \<not> disp_flush_enabled s then lv_disp_flush_ready s
      else
        (let s = st7796_set_window (area_x1 area) (area_y1 area) (area_x2 area) (area_y2 area) s;
             size = (word_of_int (sint (lv_area_get_width area) * sint (lv_area_get_height area)) :: u32);
             s = st7796_write_color color_p size s
         in lv_disp_flush_ready s))"

section \<open>GT911 touch driver (gt911.h, gt911.c)\<close>

definition GT911_I2C_ADDR :: u8 where "GT911_I2C_ADDR = 0x5D"
definition GT911_PRODUCT_ID_LEN :: nat where "GT911_PRODUCT_ID_LEN = 4"
definition GT911_PIN_SDA :: nat where "GT911_PIN_SDA = 8"
definition GT911_PIN_SCL :: nat where "GT911_PIN_SCL = 9"
definition GT911_I2C_BAUDRATE :: nat where "GT911_I2C_BAUDRATE = 100000"

definition GT911_REG_PRODUCT_ID1 :: u16 where "GT911_REG_PRODUCT_ID1 = 0x8140"
definition GT911_REG_X_RES_L :: u16 where "GT911_REG_X_RES_L = 0x8146"
definition GT911_REG_X_RES_H :: u16 where "GT911_REG_X_RES_H = 0x8147"
definition GT911_REG_Y_RES_L :: u16 where "GT911_REG_Y_RES_L = 0x8148"
definition GT911_REG_Y_RES_H :: u16 where "GT911_REG_Y_RES_H = 0x8149"
definition GT911_REG_VENDOR_ID :: u16 where "GT911_REG_VENDOR_ID = 0x814A"
definition GT911_REG_STATUS :: u16 where "GT911_REG_STATUS = 0x814E"
definition GT911_REG_PT1_X_L :: u16 where "GT911_REG_PT1_X_L = 0x8150"
definition GT911_REG_PT1_X_H :: u16 where "GT911_REG_PT1_X_H = 0x8151"
definition GT911_REG_PT1_Y_L :: u16 where "GT911_REG_PT1_Y_L = 0x8152"
definition GT911_REG_PT1_Y_H :: u16 where "GT911_REG_PT1_Y_H = 0x8153"

definition GT911_STATUS_BUF_READY :: u8 where "GT911_STATUS_BUF_READY = 0x80"
definition GT911_STATUS_PT_MASK :: u8 where "GT911_STATUS_PT_MASK = 0x0F"

record gt911_dev_t =
  initialized :: bool
  product_id :: "u8 list"    \<comment> \<open>\<^verbatim>\<open>char product_id[GT911_PRODUCT_ID_LEN + 1]\<close>\<close>
  max_x :: u16
  max_y :: u16
  i2c_addr :: u8

text \<open>
  What the bus answers to one blocking I2C call: the value the call returns (negative
  for an error, as the driver tests it) and, for a read, the bytes the controller sends,
  \<open>rx r i\<close> being the \<open>i\<close>-th.
\<close>

record i2c_reply =
  ret :: int
  rx :: "nat \<Rightarrow> u8"

text \<open>
  The state of the touch side: the static \<^verbatim>\<open>gt911_dev\<close>, the static locals
  \<^verbatim>\<open>last_x\<close> and \<^verbatim>\<open>last_y\<close> of \<^verbatim>\<open>gt911_read_touch\<close>, and the bus. The bus is
  an arbitrary sequence of answers, \<open>replies s n\<close> for the \<open>n\<close>-th blocking call since
  power-up, of which \<open>served s\<close> have been consumed; \<open>i2c_baud s\<close> is what
  \<^verbatim>\<open>i2c_init\<close> reports.
\<close>

record touch_world =
  gt911_dev :: gt911_dev_t
  last_x :: u16
  last_y :: u16
  i2c_baud :: u32
  replies :: "nat \<Rightarrow> i2c_reply"
  served :: nat
  i2c_log :: "hw_event list"

definition log_events :: "hw_event list \<Rightarrow> touch_world \<Rightarrow> touch_world" where
  "log_events es s = s\<lparr>i2c_log := i2c_log s @ es\<rparr>"

text \<open>
  The calls of the board SDK. \<^verbatim>\<open>i2c_read_blocking\<close> fills the first \<open>len\<close> bytes of
  the buffer when it does not return an error and leaves the buffer alone when it does.
\<close>

definition i2c_init :: "nat \<Rightarrow> touch_world \<Rightarrow> u32 \<times> touch_world" where
  "i2c_init baudrate s = (i2c_baud s, log_events [I2cInit baudrate] s)"

definition i2c_write_blocking ::
    "u8 \<Rightarrow> u8 list \<Rightarrow> nat \<Rightarrow> bool \<Rightarrow> touch_world \<Rightarrow> int \<times> touch_world" where
  "i2c_write_blocking addr src len nostop s =
     (ret (replies s (served s)),
      log_events [I2cWrite addr (take len src) nostop] (s\<lparr>served := served s + 1\<rparr>))"

definition i2c_read_blocking ::
    "u8 \<Rightarrow> u8 list \<Rightarrow> nat \<Rightarrow> bool \<Rightarrow> touch_world \<Rightarrow> int \<times> u8 list \<times> touch_world" where
  "i2c_read_blocking addr dst len nostop s =
     (let r = replies s (served s)
      in (ret r,
          if ret r < 0 then dst else map (rx r) [0..<len] @ drop len dst,
          log_events [I2cRead addr len nostop] (s\<lparr>served := served s + 1\<rparr>)))"

definition gt911_i2c_init :: "touch_world \<Rightarrow> bool \<times> touch_world" where
  "gt911_i2c_init s =
     (case i2c_init GT911_I2C_BAUDRATE s of
        (actual_baudrate, s) \<Rightarrow>
          if actual_baudrate = 0 then (False, s)
          else (True,
                log_events [GpioSetFunction GT911_PIN_SDA GPIO_FUNC_I2C,
                      GpioSetFunction GT911_PIN_SCL GPIO_FUNC_I2C,
                      GpioPullUp GT911_PIN_SDA, GpioPullUp GT911_PIN_SCL,
                      SleepMs 10] s))"

text \<open>
  \<^verbatim>\<open>gt911_i2c_read_reg(reg, data, len)\<close> returns its status, the buffer behind \<open>data\<close>
  as the call leaves it, and the new state.
\<close>

definition gt911_i2c_read_reg ::
    "u16 \<Rightarrow> u8 list option \<Rightarrow> u8 \<Rightarrow> touch_world \<Rightarrow> bool \<times> u8 list option \<times> touch_world" where
  "gt911_i2c_read_reg reg data len s =
     (case data of
        None \<Rightarrow> (False, None, s)
      | Some dst \<Rightarrow>
          if len = 0 then (False, data, s)
          else
            (let reg_addr = [hi_byte reg, lo_byte reg]
             in case i2c_write_blocking (i2c_addr (gt911_dev s)) reg_addr 2 True s of
                  (r, s) \<Rightarrow>
                    if r < 0 then (False, data, s)
                    else
                      (case i2c_read_blocking (i2c_addr (gt911_dev s)) dst (unat len) False s of
                         (r, buf, s) \<Rightarrow>
                           if r < 0 then (False, Some buf, s) else (True, Some buf, s))))"

text \<open>
  The call \<^verbatim>\<open>gt911_i2c_read_reg(reg, &v, 1)\<close> on a single byte \<open>v\<close>: the status, the
  byte after the call, and the new state.
\<close>

definition read_u8 :: "u16 \<Rightarrow> u8 \<Rightarrow> touch_world \<Rightarrow> bool \<times> u8 \<times> touch_world" where
  "read_u8 reg v s =
     (case gt911_i2c_read_reg reg (Some [v]) 1 s of
        (ok, Some (b # bs), s') \<Rightarrow> (ok, b, s')
      | (ok, _, s') \<Rightarrow> (ok, v, s'))"

definition gt911_clear_status :: "touch_world \<Rightarrow> touch_world" where
  "gt911_clear_status s =
     snd (i2c_write_blocking (i2c_addr (gt911_dev s)) [0x81, 0x4E, 0x00] 3 False s)"

text \<open>
  The loop \<^verbatim>\<open>for (i = 0; i < GT911_PRODUCT_ID_LEN; i++)\<close> of \<^verbatim>\<open>gt911_init\<close>, from
  index \<open>i\<close> on: each byte is read straight into \<^verbatim>\<open>gt911_dev.product_id[i]\<close>.
\<close>

function product_id_loop :: "nat \<Rightarrow> touch_world \<Rightarrow> bool \<times> touch_world" where
  "product_id_loop i s =
     (if i < GT911_PRODUCT_ID_LEN then
        (case read_u8 (GT911_REG_PRODUCT_ID1 + of_nat i) (product_id (gt911_dev s) ! i) s of
           (ok, b, s) \<Rightarrow>
             (let s = s\<lparr>gt911_dev := (gt911_dev s)\<lparr>product_id := (product_id (gt911_dev s))[i := b]\<rparr>\<rparr>
              in if \<not> ok then (False, s) else product_id_loop (i + 1) s))
      else (True, s))"
  by pat_completeness auto
termination
  by (relation "measure (\<lambda>(i, s). GT911_PRODUCT_ID_LEN - i)") auto

text \<open>
  \<^verbatim>\<open>gt911_init\<close>. The local \<^verbatim>\<open>data\<close> is not initialised in the source; it is only
  read after a register read has filled it, so its first content is immaterial.
\<close>

definition gt911_init :: "touch_world \<Rightarrow> bool \<times> touch_world" where
  "gt911_init s =
     (if initialized (gt911_dev s) then (True, s)
      else
        case gt911_i2c_init s of (ok, s) \<Rightarrow>
        if \<not> ok then (False, s) else
        case read_u8 GT911_REG_PRODUCT_ID1 0 s of (ok, data, s) \<Rightarrow>
        if \<not> ok then (False, s) else
        case product_id_loop 0 s of (ok, s) \<Rightarrow>
        if \<not> ok then (False, s) else
        let s = s\<lparr>gt911_dev := (gt911_dev s)
                  \<lparr>product_id := (product_id (gt911_dev s))[GT911_PRODUCT_ID_LEN := 0]\<rparr>\<rparr> in
        case read_u8 GT911_REG_VENDOR_ID data s of (ok, data, s) \<Rightarrow>
        if \<not> ok then (False, s) else
        case read_u8 GT911_REG_X_RES_L data s of (ok, data, s) \<Rightarrow>
        if \<not> ok then (False, s) else
        let s = s\<lparr>gt911_dev := (gt911_dev s)\<lparr>max_x := ucast data\<rparr>\<rparr> in
        case read_u8 GT911_REG_X_RES_H data s of (ok, data, s) \<Rightarrow>
        if \<not> ok then (False, s) else
        let s = s\<lparr>gt911_dev := (gt911_dev s)
                  \<lparr>max_x := max_x (gt911_dev s) OR push_bit 8 (ucast data)\<rparr>\<rparr> in
        case read_u8 GT911_REG_Y_RES_L data s of (ok, data, s) \<Rightarrow>
        if \<not> ok then (False, s) else
        let s = s\<lparr>gt911_dev := (gt911_dev s)\<lparr>max_y := ucast data\<rparr>\<rparr> in
        case read_u8 GT911_REG_Y_RES_H data s of (ok, data, s) \<Rightarrow>
        if \<not> ok then (False, s) else
        let s = s\<lparr>gt911_dev := (gt911_dev s)
                  \<lparr>max_y := max_y (gt911_dev s) OR push_bit 8 (ucast data)\<rparr>\<rparr> in
        (True, s\<lparr>gt911_dev := (gt911_dev s)\<lparr>initialized := True\<rparr>\<rparr>))"

text \<open>
  \<^verbatim>\<open>gt911_read_touch(&x, &y, &pressed)\<close>: the second argument holds what the three
  output locations contain before the call, the second component of the result what they
  contain after it.
\<close>

definition gt911_read_touch ::
    "u16 \<times> u16 \<times> bool \<Rightarrow> touch_world \<Rightarrow> bool \<times> (u16 \<times> u16 \<times> bool) \<times> touch_world" where
  "gt911_read_touch out s =
     (if \<not> initialized (gt911_dev s) then (False, out, s)
      else
        case read_u8 GT911_REG_STATUS 0 s of (ok, status_reg, s) \<Rightarrow>
        if \<not> ok then (False, out, s) else
        let touch_count = status_reg AND GT911_STATUS_PT_MASK;
            s = (if status_reg AND GT911_STATUS_BUF_READY \<noteq> 0 \<or> touch_count < 6
                 then gt911_clear_status s else s)
        in
          if touch_count = 1 then
            case read_u8 GT911_REG_PT1_X_L 0 s of (ok, data, s) \<Rightarrow>
            if \<not> ok then (False, out, s) else
            let s = s\<lparr>last_x := ucast data\<rparr> in
            case read_u8 GT911_REG_PT1_X_H data s of (ok, data, s) \<Rightarrow>
            if \<not> ok then (False, out, s) else
            let s = s\<lparr>last_x := last_x s OR push_bit 8 (ucast data)\<rparr> in
            case read_u8 GT911_REG_PT1_Y_L data s of (ok, data, s) \<Rightarrow>
            if \<not> ok then (False, out, s) else
            let s = s\<lparr>last_y := ucast data\<rparr> in
            case read_u8 GT911_REG_PT1_Y_H data s of (ok, data, s) \<Rightarrow>
            if \<not> ok then (False, out, s) else
            let s = s\<lparr>last_y := last_y s OR push_bit 8 (ucast data)\<rparr> in
            (True, (last_x s, last_y s, True), s)
          else (True, (last_x s, last_y s, False), s))"

text \<open>What a driver call added to the log of the touch bus.\<close>

definition issued :: "touch_world \<Rightarrow> touch_world \<Rightarrow> hw_event list" where
  "issued s s' = drop (length (i2c_log s)) (i2c_log s')"

text \<open>
  The acknowledgment: one write of the register address \<^verbatim>\<open>0x814E\<close> followed by the
  single byte \<^verbatim>\<open>0x00\<close>, closed by a stop condition.
\<close>

definition ack_event :: "touch_world \<Rightarrow> hw_event" where
  "ack_event s = I2cWrite (i2c_addr (gt911_dev s)) [0x81, 0x4E, 0x00] False"

text \<open>
  The answer to the \<open>k\<close>-th blocking call from now on: whether it reports no error, and
  the first byte it delivers.
\<close>

definition reply_ok :: "touch_world \<Rightarrow> nat \<Rightarrow> bool" where
  "reply_ok s k = (0 \<le> ret (replies s (served s + k)))"

definition reply_byte :: "touch_world \<Rightarrow> nat \<Rightarrow> u8" where
  "reply_byte s k = rx (replies s (served s + k)) 0"

section \<open>Auxiliary definitions\<close>

subsection \<open>Decomposition of the touch driver\<close>

text \<open>
  The state a successful one-byte register read leaves behind: two blocking calls were
  answered, the address phase and the data phase.
\<close>

definition after_read :: "u16 \<Rightarrow> touch_world \<Rightarrow> touch_world" where
  "after_read reg s =
     s\<lparr>served := served s + 2,
       i2c_log := i2c_log s @ [I2cWrite (i2c_addr (gt911_dev s)) [hi_byte reg, lo_byte reg] True,
                               I2cRead (i2c_addr (gt911_dev s)) 1 False]\<rparr>"

text \<open>The state \<^verbatim>\<open>gt911_clear_status\<close> leaves behind.\<close>

definition after_ack :: "touch_world \<Rightarrow> touch_world" where
  "after_ack s = s\<lparr>served := served s + 1, i2c_log := i2c_log s @ [ack_event s]\<rparr>"

text \<open>One round of the product-identifier loop, followed by the rest of the loop.\<close>

definition product_id_step :: "nat \<Rightarrow> (touch_world \<Rightarrow> bool \<times> touch_world) \<Rightarrow> touch_world \<Rightarrow> bool \<times> touch_world" where
  "product_id_step i continue s =
     (case read_u8 (GT911_REG_PRODUCT_ID1 + of_nat i) (product_id (gt911_dev s) ! i) s of
           (ok, b, s) \<Rightarrow>
             (let s = s\<lparr>gt911_dev := (gt911_dev s)\<lparr>product_id := (product_id (gt911_dev s))[i := b]\<rparr>\<rparr>
              in if \<not> ok then (False, s) else continue s))"

text \<open>
  The body of the branch \<^verbatim>\<open>touch_count == 1\<close> of \<^verbatim>\<open>gt911_read_touch\<close>, entered after
  the status read and the acknowledgment.
\<close>

definition read_point :: "u16 \<times> u16 \<times> bool \<Rightarrow> touch_world \<Rightarrow> bool \<times> (u16 \<times> u16 \<times> bool) \<times> touch_world" where
  "read_point out s =
           (case read_u8 GT911_REG_PT1_X_L 0 s of (ok, data, s) \<Rightarrow>
            if \<not> ok then (False, out, s) else
            let s = s\<lparr>last_x := ucast data\<rparr> in
            case read_u8 GT911_REG_PT1_X_H data s of (ok, data, s) \<Rightarrow>
            if \<not> ok then (False, out, s) else
            let s = s\<lparr>last_x := last_x s OR push_bit 8 (ucast data)\<rparr> in
            case read_u8 GT911_REG_PT1_Y_L data s of (ok, data, s) \<Rightarrow>
            if \<not> ok then (False, out, s) else
            let s = s\<lparr>last_y := ucast data\<rparr> in
            case read_u8 GT911_REG_PT1_Y_H data s of (ok, data, s) \<Rightarrow>
            if \<not> ok then (False, out, s) else
            let s = s\<lparr>last_y := last_y s OR push_bit 8 (ucast data)\<rparr> in
            (True, (last_x s, last_y s, True), s))"

text \<open>The acknowledgment policy, on the status byte: ready bit set, or contact count below 6.\<close>

definition ack_due :: "u8 \<Rightarrow> bool" where
  "ack_due b = (bit b 7 \<or> unat b mod 16 < 6)"

text \<open>
  The register writes of a log: the I2C write transactions that end with a stop condition,
  each with the bus address and the bytes sent (register address, then payload). The address
  phase of a register read keeps the bus (\<^verbatim>\<open>nostop = true\<close>) and is not one of them.
\<close>

fun register_writes :: "hw_event list \<Rightarrow> (u8 \<times> u8 list) list" where
  "register_writes [] = []"
| "register_writes (I2cWrite a bs False # es) = (a, bs) # register_writes es"
| "register_writes (e # es) = register_writes es"

subsection \<open>Concrete scenarios\<close>

text \<open>
  The display side as the static initialisers leave it, and a two-pixel area.
\<close>

definition disp_boot :: disp_world where
  "disp_boot = \<lparr>current_orientation = ST7796_PORTRAIT, disp_flush_enabled = True, wire = []\<rparr>"

definition area_ex :: lv_area_t where
  "area_ex = \<lparr>area_x1 = 0, area_y1 = 0, area_x2 = 1, area_y2 = 0\<rparr>"

text \<open>
  Bus answers: \<open>answer b\<close> reports one byte transferred and delivers \<open>b\<close>, \<open>nak\<close> is
  the SDK's generic error. \<open>bus_script rs\<close> answers the first calls from the list and
  every later call with \<open>nak\<close>.
\<close>

definition answer :: "u8 \<Rightarrow> i2c_reply" where
  "answer b = \<lparr>ret = 1, rx = (\<lambda>i. b)\<rparr>"

definition nak :: i2c_reply where
  "nak = \<lparr>ret = - 1, rx = (\<lambda>i. 0)\<rparr>"

definition bus_script :: "i2c_reply list \<Rightarrow> nat \<Rightarrow> i2c_reply" where
  "bus_script rs n = (if n < length rs then rs ! n else nak)"

text \<open>
  The touch side as the static initialisers leave it, and an initialised driver that
  retains the coordinate \<open>(x, y)\<close>.
\<close>

definition touch_boot :: "(nat \<Rightarrow> i2c_reply) \<Rightarrow> touch_world" where
  "touch_boot rs =
     \<lparr>gt911_dev = \<lparr>initialized = False, product_id = [0, 0, 0, 0, 0], max_x = 0, max_y = 0,
                   i2c_addr = GT911_I2C_ADDR\<rparr>,
      last_x = 0, last_y = 0, i2c_baud = 100000, replies = rs, served = 0, i2c_log = []\<rparr>"

definition touch_ready :: "u16 \<Rightarrow> u16 \<Rightarrow> (nat \<Rightarrow> i2c_reply) \<Rightarrow> touch_world" where
  "touch_ready x y rs =
     \<lparr>gt911_dev = \<lparr>initialized = True, product_id = [0x39, 0x31, 0x31, 0, 0], max_x = 320,
                   max_y = 480, i2c_addr = GT911_I2C_ADDR\<rparr>,
      last_x = x, last_y = y, i2c_baud = 100000, replies = rs, served = 0, i2c_log = []\<rparr>"

text \<open>
  Scripts. \<open>id_replies\<close>: the probe and the four identifier bytes \<^verbatim>\<open>"911"\<close> answer, the
  vendor read is not acknowledged. \<open>init_replies\<close>: all ten reads of \<^verbatim>\<open>gt911_init\<close> answer,
  the resolution registers holding \<^verbatim>\<open>0x40, 0x01, 0xE0, 0x01\<close>. \<open>press_replies\<close>: status
  \<^verbatim>\<open>0x81\<close>, then the point registers \<^verbatim>\<open>0x64, 0x00, 0xC8, 0x00\<close>. \<open>idle_replies\<close>:
  status \<^verbatim>\<open>0x00\<close>. \<open>busy_replies\<close>: status \<^verbatim>\<open>0x06\<close>. \<open>torn_then_idle_replies\<close>:
  status \<^verbatim>\<open>0x81\<close> and the low byte of X, then the address phase of the X high read is not
  acknowledged; the next poll reads status \<^verbatim>\<open>0x00\<close>.
\<close>

definition id_replies :: "i2c_reply list" where
  "id_replies = [answer 0, answer 0x39, answer 0, answer 0x39, answer 0, answer 0x31,
                 answer 0, answer 0x31, answer 0, answer 0]"

definition init_replies :: "i2c_reply list" where
  "init_replies = id_replies @
     [answer 0, answer 0, answer 0, answer 0x40, answer 0, answer 0x01,
      answer 0, answer 0xE0, answer 0, answer 0x01]"

definition press_replies :: "i2c_reply list" where
  "press_replies = [answer 0, answer 0x81, answer 0, answer 0, answer 0x64, answer 0, answer 0,
                    answer 0, answer 0xC8, answer 0, answer 0]"

definition idle_replies :: "i2c_reply list" where
  "idle_replies = [answer 0, answer 0x00, answer 0]"

definition busy_replies :: "i2c_reply list" where
  "busy_replies = [answer 0, answer 0x06]"

definition torn_then_idle_replies :: "i2c_reply list" where
  "torn_then_idle_replies =
     [answer 0, answer 0x81, answer 0, answer 0, answer 0x64, nak, answer 0, answer 0x00, answer 0]"

section \<open>Lemmas\<close>

lemma mask8: "(0xFF :: 'a::len word) = mask 8" by (simp add: mask_eq_exp_minus_1)

lemma hi_byte_unat: "unat (hi_byte v) = unat v div 256"
proof -
  have "unat v < 65536" using unsigned_less [of v] by simp
  then have "unat v div 256 < 256" by simp
  then show ?thesis
  unfolding hi_byte_def mask8
  by (simp add: unsigned_ucast_eq unsigned_and_eq unsigned_drop_bit_eq take_bit_eq_mod drop_bit_eq_div unat_div unat_mod flip: take_bit_eq_mask)
qed

lemma lo_byte_unat: "unat (lo_byte v) = unat v mod 256"
  unfolding lo_byte_def mask8
  by (simp add: unsigned_ucast_eq unsigned_and_eq take_bit_eq_mod unat_mod flip: take_bit_eq_mask)

lemma emitted_emit: "emitted s (emit es s) = es"
  by (simp add: emitted_def emit_def)

lemma emit_emit: "emit es (emit ds s) = emit (ds @ es) s"
  by (simp add: emit_def)

lemma st7796_write_cmd_emit:
  "st7796_write_cmd c s =
     emit [GpioPut ST7796_PIN_CS False, GpioPut ST7796_PIN_DC False, SleepUs 1,
           SpiWrite [c], SleepUs 1, GpioPut ST7796_PIN_CS True] s"
  by (simp add: st7796_write_cmd_def LCD_CS_LOW_def LCD_DC_CMD_def sleep_us_def
      spi_write_blocking_def LCD_CS_HIGH_def emit_emit)

lemma st7796_write_data_emit:
  "len \<noteq> 0 \<Longrightarrow>
   st7796_write_data (Some buf) len s =
     emit [GpioPut ST7796_PIN_CS False, GpioPut ST7796_PIN_DC True, SleepUs 1,
           SpiWrite (take (unat len) buf), SleepUs 1, GpioPut ST7796_PIN_CS True] s"
  by (simp add: st7796_write_data_def LCD_CS_LOW_def LCD_DC_DATA_def sleep_us_def
      spi_write_blocking_def LCD_CS_HIGH_def emit_emit)

lemma st7796_set_window_emit:
  "st7796_set_window x1 y1 x2 y2 s =
     emit [GpioPut ST7796_PIN_CS False, GpioPut ST7796_PIN_DC False, SleepUs 1,
           SpiWrite [0x2A], SleepUs 1, GpioPut ST7796_PIN_CS True,
           GpioPut ST7796_PIN_CS False, GpioPut ST7796_PIN_DC True, SleepUs 1,
           SpiWrite [hi_byte x1, lo_byte x1, hi_byte x2, lo_byte x2], SleepUs 1,
           GpioPut ST7796_PIN_CS True,
           GpioPut ST7796_PIN_CS False, GpioPut ST7796_PIN_DC False, SleepUs 1,
           SpiWrite [0x2B], SleepUs 1, GpioPut ST7796_PIN_CS True,
           GpioPut ST7796_PIN_CS False, GpioPut ST7796_PIN_DC True, SleepUs 1,
           SpiWrite [hi_byte y1, lo_byte y1, hi_byte y2, lo_byte y2], SleepUs 1,
           GpioPut ST7796_PIN_CS True,
           GpioPut ST7796_PIN_CS False, GpioPut ST7796_PIN_DC False, SleepUs 1,
           SpiWrite [0x2C], SleepUs 1, GpioPut ST7796_PIN_CS True] s"
  by (simp add: st7796_set_window_def st7796_write_cmd_emit st7796_write_data_emit emit_emit
      ST7796_CMD_CASET_def ST7796_CMD_RASET_def ST7796_CMD_RAMWR_def)

lemma st7796_set_orientation_emit:
  "st7796_set_orientation orientation s =
     emit [GpioPut ST7796_PIN_CS False, GpioPut ST7796_PIN_DC False, SleepUs 1,
           SpiWrite [0x36], SleepUs 1, GpioPut ST7796_PIN_CS True,
           GpioPut ST7796_PIN_CS False, GpioPut ST7796_PIN_DC True,
           SpiWrite [madctl_value orientation], GpioPut ST7796_PIN_CS True]
       (s\<lparr>current_orientation := orientation\<rparr>)"
  by (simp add: st7796_set_orientation_def st7796_write_cmd_emit emit_emit
      LCD_CS_LOW_def LCD_DC_DATA_def spi_write_blocking_def LCD_CS_HIGH_def
      ST7796_CMD_MADCTL_def)

lemma emitted_emit_upd: "emitted s (emit es (s\<lparr>current_orientation := orientation\<rparr>)) = es"
  by (simp add: emitted_def emit_def)

lemma st7796_write_color_emit:
  "len \<noteq> 0 \<Longrightarrow>
   st7796_write_color (Some buf) len s =
     emit [GpioPut ST7796_PIN_CS False, GpioPut ST7796_PIN_DC True,
           SpiWrite (take (unat (len * 2)) buf), GpioPut ST7796_PIN_CS True] s"
  by (simp add: st7796_write_color_def LCD_CS_LOW_def LCD_DC_DATA_def
      spi_write_blocking_def LCD_CS_HIGH_def emit_emit)

lemma unat_twice: "unat len < 2 ^ 31 \<Longrightarrow> unat (len * 2 :: u32) = 2 * unat len"
  by (simp add: unat_word_ariths)

lemma st7796_write_color_cases:
  "st7796_write_color color len s = s
   \<or> (\<exists>buf. st7796_write_color color len s =
         emit [GpioPut ST7796_PIN_CS False, GpioPut ST7796_PIN_DC True,
               SpiWrite buf, GpioPut ST7796_PIN_CS True] s)"
proof (cases color)
  case None
  then show ?thesis by (simp add: st7796_write_color_def)
next
  case (Some buf)
  show ?thesis
  proof (cases "len = 0")
    case True
    then show ?thesis using Some by (simp add: st7796_write_color_def)
  next
    case False
    then show ?thesis using Some st7796_write_color_emit [OF False] by blast
  qed
qed

lemma wire_emit: "wire (emit es s) = wire s @ es"
  by (simp add: emit_def)

lemma st7796_set_window_wire:
  "\<exists>a. wire (st7796_set_window x1 y1 x2 y2 s) = wire s @ a \<and> LvFlushReady \<notin> set a"
  by (simp add: st7796_set_window_emit wire_emit)

lemma st7796_write_color_wire:
  "\<exists>b. wire (st7796_write_color color len s) = wire s @ b \<and> LvFlushReady \<notin> set b"
  using st7796_write_color_cases [of color len s] by (auto simp: wire_emit)

lemma count_list_notin: "x \<notin> set xs \<Longrightarrow> count_list xs x = 0"
  by (induction xs) auto

lemma flush_size_exact:
  fixes w h :: u16
  assumes "0 \<le> sint w" "0 \<le> sint h"
  shows "unat (word_of_int (sint w * sint h) :: u32) = nat (sint w) * nat (sint h)"
proof -
  have "sint w < 2 ^ 15" "sint h < 2 ^ 15"
    using sint_lt [of w] sint_lt [of h] by simp_all
  then have "sint w * sint h < 2 ^ 15 * 2 ^ 15"
    using assms by (intro mult_strict_mono) simp_all
  then have lt: "sint w * sint h < 2 ^ 32" by simp
  have ge: "0 \<le> sint w * sint h" using assms by simp
  have "uint (word_of_int (sint w * sint h) :: u32) = sint w * sint h"
    using lt ge by (simp add: uint_word_of_int take_bit_eq_mod del: of_int_mult)
  then have "unat (word_of_int (sint w * sint h) :: u32) = nat (sint w * sint h)"
    by (simp add: unat_eq_nat_uint del: of_int_mult)
  then show ?thesis using assms by (simp add: nat_mult_distrib del: of_int_mult)
qed

lemma le16_unat:
  fixes lo hi :: u8
  shows "unat (ucast lo OR push_bit 8 (ucast hi) :: u16) = unat lo + 256 * unat hi"
proof -
  have lo: "unat lo < 256" and hi: "unat hi < 256"
    using unsigned_less [of lo] unsigned_less [of hi] by simp_all
  have "(ucast lo OR push_bit 8 (ucast hi) :: u16) = ucast lo + push_bit 8 (ucast hi)"
    by (rule disjunctive_add_eq_or [symmetric]) (auto simp: bit_eq_iff bit_simps dest: bit_imp_le_length)
  moreover have "unat (ucast lo + push_bit 8 (ucast hi) :: u16) = unat lo + 256 * unat hi"
    using lo hi
    by (simp add: unat_word_ariths unsigned_ucast_eq unsigned_push_bit_eq push_bit_eq_mult take_bit_eq_mod)
  ultimately show ?thesis by simp
qed

lemma read_u8_ok:
  "reply_ok s 0 \<Longrightarrow> reply_ok s 1 \<Longrightarrow>
   read_u8 reg v s = (True, reply_byte s 1, after_read reg s)"
  by (simp add: read_u8_def gt911_i2c_read_reg_def i2c_write_blocking_def i2c_read_blocking_def
      log_events_def reply_ok_def reply_byte_def after_read_def Let_def)

lemma read_u8_fail:
  "\<not> (reply_ok s 0 \<and> reply_ok s 1) \<Longrightarrow>
   \<exists>s'. read_u8 reg v s = (False, v, s') \<and> gt911_dev s' = gt911_dev s
      \<and> last_x s' = last_x s \<and> last_y s' = last_y s"
  by (auto simp add: read_u8_def gt911_i2c_read_reg_def i2c_write_blocking_def i2c_read_blocking_def
      log_events_def reply_ok_def reply_byte_def Let_def)

lemma read_u8_cases:
  "read_u8 reg v s =
     (if reply_ok s 0 \<and> reply_ok s 1 then (True, reply_byte s 1, after_read reg s)
      else if reply_ok s 0 then
        (False, v, s\<lparr>served := served s + 2,
       i2c_log := i2c_log s @ [I2cWrite (i2c_addr (gt911_dev s)) [hi_byte reg, lo_byte reg] True,
                               I2cRead (i2c_addr (gt911_dev s)) 1 False]\<rparr>)
      else (False, v, s\<lparr>served := served s + 1,
       i2c_log := i2c_log s @ [I2cWrite (i2c_addr (gt911_dev s)) [hi_byte reg, lo_byte reg] True]\<rparr>))"
  by (simp add: read_u8_def gt911_i2c_read_reg_def i2c_write_blocking_def i2c_read_blocking_def
      log_events_def reply_ok_def reply_byte_def after_read_def Let_def)

lemma reply_ok_after_read [simp]: "reply_ok (after_read reg s) k = reply_ok s (k + 2)"
  by (simp add: reply_ok_def after_read_def add.commute add.left_commute)

lemma reply_byte_after_read [simp]: "reply_byte (after_read reg s) k = reply_byte s (k + 2)"
  by (simp add: reply_byte_def after_read_def add.commute add.left_commute)

lemma reply_ok_dev_upd [simp]: "reply_ok (s\<lparr>gt911_dev := d\<rparr>) k = reply_ok s k"
  by (simp add: reply_ok_def)

lemma reply_byte_dev_upd [simp]: "reply_byte (s\<lparr>gt911_dev := d\<rparr>) k = reply_byte s k"
  by (simp add: reply_byte_def)

lemma reply_ok_log_events [simp]: "reply_ok (log_events es s) k = reply_ok s k"
  by (simp add: reply_ok_def log_events_def)

lemma reply_byte_log_events [simp]: "reply_byte (log_events es s) k = reply_byte s k"
  by (simp add: reply_byte_def log_events_def)

lemma gt911_dev_after_read [simp]: "gt911_dev (after_read reg s) = gt911_dev s"
  by (simp add: after_read_def)

lemma gt911_dev_log_events [simp]: "gt911_dev (log_events es s) = gt911_dev s"
  by (simp add: log_events_def)

lemma gt911_i2c_init_eq:
  "gt911_i2c_init s =
     (if i2c_baud s = 0 then (False, log_events [I2cInit GT911_I2C_BAUDRATE] s)
      else (True, log_events [GpioSetFunction GT911_PIN_SDA GPIO_FUNC_I2C,
                      GpioSetFunction GT911_PIN_SCL GPIO_FUNC_I2C,
                      GpioPullUp GT911_PIN_SDA, GpioPullUp GT911_PIN_SCL,
                      SleepMs 10] (log_events [I2cInit GT911_I2C_BAUDRATE] s)))"
  by (simp add: gt911_i2c_init_def i2c_init_def log_events_def)

lemma product_id_loop_4: "product_id_loop 4 = (\<lambda>s. (True, s))"
  by (rule ext, subst product_id_loop.simps) (simp add: GT911_PRODUCT_ID_LEN_def)

lemma product_id_loop_step:
  "i < 4 \<Longrightarrow> product_id_loop i = product_id_step i (product_id_loop (i + 1))"
  by (rule ext, subst product_id_loop.simps)
    (simp only: GT911_PRODUCT_ID_LEN_def product_id_step_def if_True)

lemma product_id_loop_3: "product_id_loop 3 = product_id_step 3 (product_id_loop 4)"
  using product_id_loop_step [of 3] by simp

lemma product_id_loop_2: "product_id_loop 2 = product_id_step 2 (product_id_loop 3)"
  using product_id_loop_step [of 2] by simp

lemma product_id_loop_1: "product_id_loop 1 = product_id_step 1 (product_id_loop 2)"
  using product_id_loop_step [of 1] by (simp del: One_nat_def)

lemma product_id_loop_0: "product_id_loop 0 = product_id_step 0 (product_id_loop 1)"
  using product_id_loop_step [of 0] by (simp del: One_nat_def)

lemma product_id_loop_unroll:
  "product_id_loop 0 =
     product_id_step 0 (product_id_step 1 (product_id_step 2 (product_id_step 3 (\<lambda>s. (True, s)))))"
  by (simp only: product_id_loop_0 product_id_loop_1 product_id_loop_2 product_id_loop_3
      product_id_loop_4)

lemma gt911_init_ok:
  assumes "\<not> initialized (gt911_dev s)" "i2c_baud s \<noteq> 0" "\<forall>k<20. reply_ok s k"
  shows "fst (gt911_init s)"
    and "gt911_dev (snd (gt911_init s)) = (gt911_dev s)
           \<lparr>initialized := True,
            product_id := (product_id (gt911_dev s))
               [0 := reply_byte s 3, 1 := reply_byte s 5, 2 := reply_byte s 7,
                3 := reply_byte s 9, 4 := 0],
            max_x := ucast (reply_byte s 13) OR push_bit 8 (ucast (reply_byte s 15)),
            max_y := ucast (reply_byte s 17) OR push_bit 8 (ucast (reply_byte s 19))\<rparr>"
  using assms
  by (simp_all add: gt911_init_def gt911_i2c_init_eq product_id_loop_unroll product_id_step_def read_u8_ok Let_def
      GT911_PRODUCT_ID_LEN_def del: One_nat_def add_2_eq_Suc add_2_eq_Suc')

lemma gt911_init_fails:
  assumes "\<not> initialized (gt911_dev s)" "\<not> (i2c_baud s \<noteq> 0 \<and> (\<forall>k<20. reply_ok s k))"
  shows "\<not> fst (gt911_init s) \<and> \<not> initialized (gt911_dev (snd (gt911_init s)))"
proof -
  have *: "fst (gt911_init s) \<or> initialized (gt911_dev (snd (gt911_init s)))
      \<Longrightarrow> i2c_baud s \<noteq> 0 \<and> reply_ok s 0 \<and> reply_ok s 1 \<and> reply_ok s 2 \<and> reply_ok s 3 \<and> reply_ok s 4
       \<and> reply_ok s 5 \<and> reply_ok s 6 \<and> reply_ok s 7 \<and> reply_ok s 8 \<and> reply_ok s 9 \<and> reply_ok s 10
       \<and> reply_ok s 11 \<and> reply_ok s 12 \<and> reply_ok s 13 \<and> reply_ok s 14 \<and> reply_ok s 15 \<and> reply_ok s 16
       \<and> reply_ok s 17 \<and> reply_ok s 18 \<and> reply_ok s 19"
    using assms(1)
    apply (simp add: gt911_init_def gt911_i2c_init_eq product_id_loop_unroll product_id_step_def read_u8_cases Let_def
      GT911_PRODUCT_ID_LEN_def del: One_nat_def add_2_eq_Suc add_2_eq_Suc' split: if_splits)
    done
  show ?thesis using * assms(2) by (auto simp: less_Suc_eq numeral_eq_Suc)
qed

lemma gt911_clear_status_eq: "gt911_clear_status s = after_ack s"
  by (simp add: gt911_clear_status_def i2c_write_blocking_def log_events_def after_ack_def ack_event_def)

lemma reply_ok_after_ack [simp]: "reply_ok (after_ack s) k = reply_ok s (k + 1)"
  by (simp add: reply_ok_def after_ack_def add.commute add.left_commute)

lemma reply_byte_after_ack [simp]: "reply_byte (after_ack s) k = reply_byte s (k + 1)"
  by (simp add: reply_byte_def after_ack_def add.commute add.left_commute)

lemma reply_ok_last_upd [simp]:
  "reply_ok (s\<lparr>last_x := x\<rparr>) k = reply_ok s k" "reply_ok (s\<lparr>last_y := y\<rparr>) k = reply_ok s k"
  by (simp_all add: reply_ok_def)

lemma reply_byte_last_upd [simp]:
  "reply_byte (s\<lparr>last_x := x\<rparr>) k = reply_byte s k" "reply_byte (s\<lparr>last_y := y\<rparr>) k = reply_byte s k"
  by (simp_all add: reply_byte_def)

lemma ready_bit: "(b AND GT911_STATUS_BUF_READY \<noteq> 0) = bit b 7" for b :: u8
proof -
  have eq: "GT911_STATUS_BUF_READY = 2 ^ 7" by (simp add: GT911_STATUS_BUF_READY_def)
  show ?thesis unfolding eq and_exp_eq_0_iff_not_bit by simp
qed

lemma count_field: "unat (b AND GT911_STATUS_PT_MASK) = unat b mod 16" for b :: u8
proof -
  have eq: "GT911_STATUS_PT_MASK = mask 4" by (simp add: GT911_STATUS_PT_MASK_def mask_eq_exp_minus_1)
  show ?thesis unfolding eq
    by (simp add: unsigned_and_eq take_bit_eq_mod unat_mod flip: take_bit_eq_mask)
qed

lemma count_lt_6: "(b AND GT911_STATUS_PT_MASK < 6) = (unat b mod 16 < 6)" for b :: u8
  by (simp add: word_less_nat_alt count_field)

lemma count_eq_1: "(b AND GT911_STATUS_PT_MASK = 1) = (unat b mod 16 = 1)" for b :: u8
  using count_field [of b] by (metis unat_1 word_unat_eq_iff)

lemma gt911_read_touch_other:
  assumes "initialized (gt911_dev s)" "reply_ok s 0" "reply_ok s 1" "unat (reply_byte s 1) mod 16 \<noteq> 1"
  shows "gt911_read_touch out s =
     (True, (last_x s, last_y s, False),
      if ack_due (reply_byte s 1) then after_ack (after_read GT911_REG_STATUS s)
      else after_read GT911_REG_STATUS s)"
  using assms
  by (simp add: gt911_read_touch_def read_u8_ok gt911_clear_status_eq Let_def ready_bit
      count_lt_6 count_eq_1 ack_due_def after_ack_def after_read_def
      del: One_nat_def add_2_eq_Suc add_2_eq_Suc')

lemma gt911_read_touch_one:
  assumes "initialized (gt911_dev s)" "reply_ok s 0" "reply_ok s 1" "unat (reply_byte s 1) mod 16 = 1"
  shows "gt911_read_touch out s = read_point out (after_ack (after_read GT911_REG_STATUS s))"
  using assms
  by (simp add: gt911_read_touch_def read_u8_ok gt911_clear_status_eq Let_def ready_bit
      count_lt_6 count_eq_1 read_point_def
      del: One_nat_def add_2_eq_Suc add_2_eq_Suc')

lemmas no_suc = One_nat_def add_2_eq_Suc add_2_eq_Suc'

lemma last_after [simp]:
  "last_x (after_read reg s) = last_x s" "last_y (after_read reg s) = last_y s"
  "last_x (after_ack s) = last_x s" "last_y (after_ack s) = last_y s"
  "gt911_dev (after_ack s) = gt911_dev s"
  by (simp_all add: after_read_def after_ack_def)

lemma reg_bytes:
  "hi_byte GT911_REG_STATUS = 0x81" "lo_byte GT911_REG_STATUS = 0x4E"
  "hi_byte GT911_REG_PT1_X_L = 0x81" "lo_byte GT911_REG_PT1_X_L = 0x50"
  "hi_byte GT911_REG_PT1_X_H = 0x81" "lo_byte GT911_REG_PT1_X_H = 0x51"
  "hi_byte GT911_REG_PT1_Y_L = 0x81" "lo_byte GT911_REG_PT1_Y_L = 0x52"
  "hi_byte GT911_REG_PT1_Y_H = 0x81" "lo_byte GT911_REG_PT1_Y_H = 0x53"
  by (simp_all add: hi_byte_def lo_byte_def GT911_REG_STATUS_def GT911_REG_PT1_X_L_def
      GT911_REG_PT1_X_H_def GT911_REG_PT1_Y_L_def GT911_REG_PT1_Y_H_def)

lemma all_less_8:
  "(\<forall>k<8. P k) = (P 0 \<and> P 1 \<and> P 2 \<and> P 3 \<and> P 4 \<and> P 5 \<and> P 6 \<and> P (7::nat))"
proof
  assume "\<forall>k<8. P k"
  then show "P 0 \<and> P 1 \<and> P 2 \<and> P 3 \<and> P 4 \<and> P 5 \<and> P 6 \<and> P 7" by simp
next
  assume a: "P 0 \<and> P 1 \<and> P 2 \<and> P 3 \<and> P 4 \<and> P 5 \<and> P 6 \<and> P 7"
  show "\<forall>k<8. P k"
  proof (intro allI impI)
    fix k :: nat
    assume "k < 8"
    then have "k = 0 \<or> k = 1 \<or> k = 2 \<or> k = 3 \<or> k = 4 \<or> k = 5 \<or> k = 6 \<or> k = 7" by arith
    then show "P k" using a by (elim disjE) (simp_all del: One_nat_def)
  qed
qed

lemma all_less_20:
  "(\<forall>k<20. P k) = (P 0 \<and> P 1 \<and> P 2 \<and> P 3 \<and> P 4 \<and> P 5 \<and> P 6 \<and> P 7 \<and> P 8 \<and> P 9
      \<and> P 10 \<and> P 11 \<and> P 12 \<and> P 13 \<and> P 14 \<and> P 15 \<and> P 16 \<and> P 17 \<and> P 18 \<and> P (19::nat))"
proof
  assume "\<forall>k<20. P k"
  then show "P 0 \<and> P 1 \<and> P 2 \<and> P 3 \<and> P 4 \<and> P 5 \<and> P 6 \<and> P 7 \<and> P 8 \<and> P 9
      \<and> P 10 \<and> P 11 \<and> P 12 \<and> P 13 \<and> P 14 \<and> P 15 \<and> P 16 \<and> P 17 \<and> P 18 \<and> P 19" by simp
next
  assume a: "P 0 \<and> P 1 \<and> P 2 \<and> P 3 \<and> P 4 \<and> P 5 \<and> P 6 \<and> P 7 \<and> P 8 \<and> P 9
      \<and> P 10 \<and> P 11 \<and> P 12 \<and> P 13 \<and> P 14 \<and> P 15 \<and> P 16 \<and> P 17 \<and> P 18 \<and> P 19"
  show "\<forall>k<20. P k"
  proof (intro allI impI)
    fix k :: nat
    assume "k < 20"
    then have "k = 0 \<or> k = 1 \<or> k = 2 \<or> k = 3 \<or> k = 4 \<or> k = 5 \<or> k = 6 \<or> k = 7 \<or> k = 8
      \<or> k = 9 \<or> k = 10 \<or> k = 11 \<or> k = 12 \<or> k = 13 \<or> k = 14 \<or> k = 15 \<or> k = 16 \<or> k = 17
      \<or> k = 18 \<or> k = 19" by arith
    then show "P k" using a by (elim disjE) (simp_all del: One_nat_def)
  qed
qed

lemma read_point_fst: "fst (read_point out s) = (\<forall>k<8. reply_ok s k)"
proof -
  have "fst (read_point out s) = (reply_ok s 0 \<and> reply_ok s 1 \<and> reply_ok s 2 \<and> reply_ok s 3
      \<and> reply_ok s 4 \<and> reply_ok s 5 \<and> reply_ok s 6 \<and> reply_ok s 7)"
    by (simp add: read_point_def read_u8_cases Let_def del: no_suc)
  also have "\<dots> = (\<forall>k<8. reply_ok s k)"
    by (simp only: all_less_8)
  finally show ?thesis .
qed

lemma read_point_ok:
  assumes "\<forall>k<8. reply_ok s k"
  shows "fst (snd (read_point out s)) =
           (ucast (reply_byte s 1) OR push_bit 8 (ucast (reply_byte s 3)),
            ucast (reply_byte s 5) OR push_bit 8 (ucast (reply_byte s 7)), True)"
    and "last_x (snd (snd (read_point out s))) =
           ucast (reply_byte s 1) OR push_bit 8 (ucast (reply_byte s 3))"
    and "last_y (snd (snd (read_point out s))) =
           ucast (reply_byte s 5) OR push_bit 8 (ucast (reply_byte s 7))"
    and "i2c_log (snd (snd (read_point out s))) = i2c_log s @
           [I2cWrite (i2c_addr (gt911_dev s)) [0x81, 0x50] True, I2cRead (i2c_addr (gt911_dev s)) 1 False,
            I2cWrite (i2c_addr (gt911_dev s)) [0x81, 0x51] True, I2cRead (i2c_addr (gt911_dev s)) 1 False,
            I2cWrite (i2c_addr (gt911_dev s)) [0x81, 0x52] True, I2cRead (i2c_addr (gt911_dev s)) 1 False,
            I2cWrite (i2c_addr (gt911_dev s)) [0x81, 0x53] True, I2cRead (i2c_addr (gt911_dev s)) 1 False]"
proof -
  show "fst (snd (read_point out s)) =
           (ucast (reply_byte s 1) OR push_bit 8 (ucast (reply_byte s 3)),
            ucast (reply_byte s 5) OR push_bit 8 (ucast (reply_byte s 7)), True)"
    using assms by (simp add: read_point_def read_u8_ok Let_def del: no_suc)
  show "last_x (snd (snd (read_point out s))) =
           ucast (reply_byte s 1) OR push_bit 8 (ucast (reply_byte s 3))"
    using assms by (simp add: read_point_def read_u8_ok Let_def del: no_suc)
  show "last_y (snd (snd (read_point out s))) =
           ucast (reply_byte s 5) OR push_bit 8 (ucast (reply_byte s 7))"
    using assms by (simp add: read_point_def read_u8_ok Let_def del: no_suc)
  have "i2c_log (snd (snd (read_point out s))) =
      i2c_log (after_read GT911_REG_PT1_Y_H (after_read GT911_REG_PT1_Y_L
        (after_read GT911_REG_PT1_X_H (after_read GT911_REG_PT1_X_L s))))"
    using assms by (simp add: read_point_def read_u8_ok Let_def del: no_suc) (simp add: after_read_def)
  then show "i2c_log (snd (snd (read_point out s))) = i2c_log s @
           [I2cWrite (i2c_addr (gt911_dev s)) [0x81, 0x50] True, I2cRead (i2c_addr (gt911_dev s)) 1 False,
            I2cWrite (i2c_addr (gt911_dev s)) [0x81, 0x51] True, I2cRead (i2c_addr (gt911_dev s)) 1 False,
            I2cWrite (i2c_addr (gt911_dev s)) [0x81, 0x52] True, I2cRead (i2c_addr (gt911_dev s)) 1 False,
            I2cWrite (i2c_addr (gt911_dev s)) [0x81, 0x53] True, I2cRead (i2c_addr (gt911_dev s)) 1 False]"
    by (simp add: after_read_def reg_bytes)
qed

lemma read_point_first_fail:
  assumes "\<not> (reply_ok s 0 \<and> reply_ok s 1)"
  shows "last_x (snd (snd (read_point out s))) = last_x s \<and> last_y (snd (snd (read_point out s))) = last_y s"
  using assms
  by (auto simp add: read_point_def read_u8_cases Let_def del: no_suc)

lemma read_point_dev: "gt911_dev (snd (snd (read_point out s))) = gt911_dev s"
  by (simp add: read_point_def read_u8_cases Let_def del: no_suc)

lemma issued_after:
  "i2c_log s' = i2c_log s @ es \<Longrightarrow> issued s s' = es"
  by (simp add: issued_def)

lemma status_log:
  "i2c_log (after_read GT911_REG_STATUS s) = i2c_log s @
     [I2cWrite (i2c_addr (gt911_dev s)) [0x81, 0x4E] True, I2cRead (i2c_addr (gt911_dev s)) 1 False]"
  by (simp add: after_read_def reg_bytes)

lemma ack_log: "i2c_log (after_ack s) = i2c_log s @ [ack_event s]"
  by (simp add: after_ack_def)

lemma ack_event_after [simp]:
  "ack_event (after_read reg s) = ack_event s" "ack_event (after_ack s) = ack_event s"
  by (simp_all add: ack_event_def)

lemma register_writes_append [simp]:
  "register_writes (xs @ ys) = register_writes xs @ register_writes ys"
  by (induction xs rule: register_writes.induct) simp_all

lemma read_point_issued:
  "\<exists>rest. i2c_log (snd (snd (read_point out s))) =
      i2c_log s @ I2cWrite (i2c_addr (gt911_dev s)) [0x81, 0x50] True # rest
    \<and> register_writes rest = []"
  by (simp add: read_point_def read_u8_cases Let_def after_read_def reg_bytes del: no_suc)

lemma gt911_read_touch_uninit:
  "\<not> initialized (gt911_dev s) \<Longrightarrow> gt911_read_touch out s = (False, out, s)"
  by (simp add: gt911_read_touch_def)

lemma gt911_read_touch_status_fail:
  assumes "initialized (gt911_dev s)" "\<not> (reply_ok s 0 \<and> reply_ok s 1)"
  shows "\<exists>s'. gt911_read_touch out s = (False, out, s') \<and> last_x s' = last_x s
     \<and> last_y s' = last_y s \<and> gt911_dev s' = gt911_dev s"
proof -
  obtain s' where "read_u8 GT911_REG_STATUS 0 s = (False, 0, s')" "gt911_dev s' = gt911_dev s"
      "last_x s' = last_x s" "last_y s' = last_y s"
    using read_u8_fail [OF assms(2)] by blast
  then show ?thesis using assms(1) by (simp add: gt911_read_touch_def)
qed

lemma shift3: "(\<forall>k<8. reply_ok s (k + 3)) = (\<forall>k\<in>{3..<11}. reply_ok s k)"
proof
  assume a: "\<forall>k<8. reply_ok s (k + 3)"
  show "\<forall>k\<in>{3..<11}. reply_ok s k"
  proof
    fix k :: nat assume "k \<in> {3..<11}"
    then have "k - 3 < 8" "k = (k - 3) + 3" by auto
    then show "reply_ok s k" using a by metis
  qed
next
  assume "\<forall>k\<in>{3..<11}. reply_ok s k"
  then show "\<forall>k<8. reply_ok s (k + 3)" by simp
qed

lemma point_replies:
  "(\<forall>k<8. reply_ok (after_ack (after_read GT911_REG_STATUS s)) k) = (\<forall>k\<in>{3..<11}. reply_ok s k)"
  by (simp add: add.assoc shift3 del: no_suc)

lemma gt911_init_again: "initialized (gt911_dev t) \<Longrightarrow> gt911_init t = (True, t)"
  by (simp add: gt911_init_def)

lemma gt911_init_success_flag:
  "initialized (gt911_dev (snd (gt911_init s))) = (initialized (gt911_dev s) \<or> fst (gt911_init s))"
proof (cases "initialized (gt911_dev s)")
  case True
  then show ?thesis by (simp add: gt911_init_again)
next
  case False
  show ?thesis
  proof (cases "i2c_baud s \<noteq> 0 \<and> (\<forall>k<20. reply_ok s k)")
    case True
    then show ?thesis using gt911_init_ok [of s] False by simp
  next
    case no: False
    then show ?thesis using gt911_init_fails [OF False no] False by simp
  qed
qed

lemma gt911_read_touch_dev: "gt911_dev (snd (snd (gt911_read_touch out t))) = gt911_dev t"
proof (cases "initialized (gt911_dev t)")
  case False
  then show ?thesis by (simp add: gt911_read_touch_uninit)
next
  case init: True
  show ?thesis
  proof (cases "reply_ok t 0 \<and> reply_ok t 1")
    case False
    then show ?thesis using gt911_read_touch_status_fail [OF init False, of out] by auto
  next
    case ok: True
    show ?thesis
    proof (cases "unat (reply_byte t 1) mod 16 = 1")
      case False
      then show ?thesis using gt911_read_touch_other [of t out] init ok by simp
    next
      case True
      then show ?thesis using gt911_read_touch_one [of t out] init ok by (simp add: read_point_dev)
    qed
  qed
qed

lemma ret_answer [simp]: "ret (answer b) = 1" "rx (answer b) i = b"
  by (simp_all add: answer_def)

lemma ret_nak [simp]: "ret nak = - 1"
  by (simp add: nak_def)

lemma bus_script_ok:
  "list_all (\<lambda>r. 0 \<le> ret r) rs \<Longrightarrow> k < length rs \<Longrightarrow> 0 \<le> ret (bus_script rs k)"
  by (simp add: bus_script_def list_all_length)

lemma bus_script_end: "length rs \<le> k \<Longrightarrow> bus_script rs k = nak"
  by (simp add: bus_script_def)

lemma boot_simps [simp]:
  "\<not> initialized (gt911_dev (touch_boot rs))" "i2c_baud (touch_boot rs) \<noteq> 0"
  "product_id (gt911_dev (touch_boot rs)) = [0, 0, 0, 0, 0]"
  by (simp_all add: touch_boot_def)

lemma boot_reply:
  "reply_ok (touch_boot rs) k = (0 \<le> ret (rs k))" "reply_byte (touch_boot rs) k = rx (rs k) 0"
  by (simp_all add: touch_boot_def reply_ok_def reply_byte_def)

lemma ready_simps [simp]:
  "initialized (gt911_dev (touch_ready x y rs))"
  "last_x (touch_ready x y rs) = x" "last_y (touch_ready x y rs) = y"
  "i2c_addr (gt911_dev (touch_ready x y rs)) = 0x5D"
  by (simp_all add: touch_ready_def GT911_I2C_ADDR_def)

lemma ready_reply:
  "reply_ok (touch_ready x y rs) k = (0 \<le> ret (rs k))"
  "reply_byte (touch_ready x y rs) k = rx (rs k) 0"
  by (simp_all add: touch_ready_def reply_ok_def reply_byte_def)

lemma init_replies_ok: "k < 20 \<Longrightarrow> reply_ok (touch_boot (bus_script init_replies)) k"
  unfolding boot_reply by (rule bus_script_ok) (simp_all add: init_replies_def id_replies_def)

lemma id_replies_ok: "k < 10 \<Longrightarrow> reply_ok (touch_boot (bus_script id_replies)) k"
  unfolding boot_reply by (rule bus_script_ok) (simp_all add: id_replies_def)

lemma id_replies_nak: "\<not> reply_ok (touch_boot (bus_script id_replies)) 10"
  unfolding boot_reply by (simp add: bus_script_end id_replies_def)

lemma press_replies_ok: "k < 11 \<Longrightarrow> reply_ok (touch_ready x y (bus_script press_replies)) k"
  unfolding ready_reply by (rule bus_script_ok) (simp_all add: press_replies_def)

lemma init_bytes:
  "reply_byte (touch_boot (bus_script init_replies)) 13 = 0x40"
  "reply_byte (touch_boot (bus_script init_replies)) 15 = 0x01"
  "reply_byte (touch_boot (bus_script init_replies)) 17 = 0xE0"
  "reply_byte (touch_boot (bus_script init_replies)) 19 = 0x01"
  unfolding boot_reply by (simp_all add: bus_script_def init_replies_def id_replies_def)

lemma id_bytes:
  "reply_byte (touch_boot (bus_script id_replies)) 3 = 0x39"
  "reply_byte (touch_boot (bus_script id_replies)) 5 = 0x31"
  "reply_byte (touch_boot (bus_script id_replies)) 7 = 0x31"
  "reply_byte (touch_boot (bus_script id_replies)) 9 = 0x00"
  unfolding boot_reply by (simp_all add: bus_script_def id_replies_def)

lemma press_bytes:
  "reply_byte (touch_ready x y (bus_script press_replies)) 1 = 0x81"
  "reply_byte (touch_ready x y (bus_script press_replies)) 4 = 0x64"
  "reply_byte (touch_ready x y (bus_script press_replies)) 6 = 0x00"
  "reply_byte (touch_ready x y (bus_script press_replies)) 8 = 0xC8"
  "reply_byte (touch_ready x y (bus_script press_replies)) 10 = 0x00"
  unfolding ready_reply by (simp_all add: bus_script_def press_replies_def)

lemma gt911_init_vendor_nak:
  assumes "\<not> initialized (gt911_dev s)" "i2c_baud s \<noteq> 0" "\<forall>k<10. reply_ok s k"
    "\<not> reply_ok s 10"
  shows "\<not> fst (gt911_init s)"
    and "product_id (gt911_dev (snd (gt911_init s))) = (product_id (gt911_dev s))
           [0 := reply_byte s 3, 1 := reply_byte s 5, 2 := reply_byte s 7,
            3 := reply_byte s 9, 4 := 0]"
  using assms
  by (simp_all add: gt911_init_def gt911_i2c_init_eq product_id_loop_unroll product_id_step_def
        read_u8_cases Let_def GT911_PRODUCT_ID_LEN_def del: no_suc)

lemma idle_replies_ok: "k < 3 \<Longrightarrow> reply_ok (touch_ready x y (bus_script idle_replies)) k"
  unfolding ready_reply by (rule bus_script_ok) (simp_all add: idle_replies_def)

lemma busy_replies_ok: "k < 2 \<Longrightarrow> reply_ok (touch_ready x y (bus_script busy_replies)) k"
  unfolding ready_reply by (rule bus_script_ok) (simp_all add: busy_replies_def)

lemma status_bytes:
  "reply_byte (touch_ready x y (bus_script idle_replies)) 1 = 0x00"
  "reply_byte (touch_ready x y (bus_script busy_replies)) 1 = 0x06"
  unfolding ready_reply
  by (simp_all add: bus_script_def idle_replies_def busy_replies_def)
lemma init_reg_bytes:
  "hi_byte GT911_REG_PRODUCT_ID1 = 0x81" "lo_byte GT911_REG_PRODUCT_ID1 = 0x40"
  "hi_byte (GT911_REG_PRODUCT_ID1 + 1) = 0x81" "lo_byte (GT911_REG_PRODUCT_ID1 + 1) = 0x41"
  "hi_byte (GT911_REG_PRODUCT_ID1 + 2) = 0x81" "lo_byte (GT911_REG_PRODUCT_ID1 + 2) = 0x42"
  "hi_byte (GT911_REG_PRODUCT_ID1 + 3) = 0x81" "lo_byte (GT911_REG_PRODUCT_ID1 + 3) = 0x43"
  "hi_byte GT911_REG_VENDOR_ID = 0x81" "lo_byte GT911_REG_VENDOR_ID = 0x4A"
  "hi_byte GT911_REG_X_RES_L = 0x81" "lo_byte GT911_REG_X_RES_L = 0x46"
  "hi_byte GT911_REG_X_RES_H = 0x81" "lo_byte GT911_REG_X_RES_H = 0x47"
  "hi_byte GT911_REG_Y_RES_L = 0x81" "lo_byte GT911_REG_Y_RES_L = 0x48"
  "hi_byte GT911_REG_Y_RES_H = 0x81" "lo_byte GT911_REG_Y_RES_H = 0x49"
  by (simp_all add: hi_byte_def lo_byte_def GT911_REG_PRODUCT_ID1_def GT911_REG_VENDOR_ID_def
      GT911_REG_X_RES_L_def GT911_REG_X_RES_H_def GT911_REG_Y_RES_L_def GT911_REG_Y_RES_H_def)

lemma gt911_init_ok_log:
  assumes "\<not> initialized (gt911_dev s)" "i2c_baud s \<noteq> 0" "\<forall>k<20. reply_ok s k"
  shows "i2c_log (snd (gt911_init s)) = i2c_log s @
     [I2cInit 100000,
      GpioSetFunction 8 GPIO_FUNC_I2C, GpioSetFunction 9 GPIO_FUNC_I2C,
      GpioPullUp 8, GpioPullUp 9, SleepMs 10,
      I2cWrite (i2c_addr (gt911_dev s)) [0x81, 0x40] True, I2cRead (i2c_addr (gt911_dev s)) 1 False,
      I2cWrite (i2c_addr (gt911_dev s)) [0x81, 0x40] True, I2cRead (i2c_addr (gt911_dev s)) 1 False,
      I2cWrite (i2c_addr (gt911_dev s)) [0x81, 0x41] True, I2cRead (i2c_addr (gt911_dev s)) 1 False,
      I2cWrite (i2c_addr (gt911_dev s)) [0x81, 0x42] True, I2cRead (i2c_addr (gt911_dev s)) 1 False,
      I2cWrite (i2c_addr (gt911_dev s)) [0x81, 0x43] True, I2cRead (i2c_addr (gt911_dev s)) 1 False,
      I2cWrite (i2c_addr (gt911_dev s)) [0x81, 0x4A] True, I2cRead (i2c_addr (gt911_dev s)) 1 False,
      I2cWrite (i2c_addr (gt911_dev s)) [0x81, 0x46] True, I2cRead (i2c_addr (gt911_dev s)) 1 False,
      I2cWrite (i2c_addr (gt911_dev s)) [0x81, 0x47] True, I2cRead (i2c_addr (gt911_dev s)) 1 False,
      I2cWrite (i2c_addr (gt911_dev s)) [0x81, 0x48] True, I2cRead (i2c_addr (gt911_dev s)) 1 False,
      I2cWrite (i2c_addr (gt911_dev s)) [0x81, 0x49] True, I2cRead (i2c_addr (gt911_dev s)) 1 False]"
proof -
  have "i2c_log (snd (gt911_init s)) =
      i2c_log (after_read GT911_REG_Y_RES_H (after_read GT911_REG_Y_RES_L
        (after_read GT911_REG_X_RES_H (after_read GT911_REG_X_RES_L
        (after_read GT911_REG_VENDOR_ID (after_read (GT911_REG_PRODUCT_ID1 + 3)
        (after_read (GT911_REG_PRODUCT_ID1 + 2) (after_read (GT911_REG_PRODUCT_ID1 + 1)
        (after_read GT911_REG_PRODUCT_ID1 (after_read GT911_REG_PRODUCT_ID1
        (log_events [GpioSetFunction GT911_PIN_SDA GPIO_FUNC_I2C,
                      GpioSetFunction GT911_PIN_SCL GPIO_FUNC_I2C,
                      GpioPullUp GT911_PIN_SDA, GpioPullUp GT911_PIN_SCL,
                      SleepMs 10] (log_events [I2cInit GT911_I2C_BAUDRATE] s))))))))))))"
    using assms
    by (simp add: gt911_init_def gt911_i2c_init_eq product_id_loop_unroll product_id_step_def
        read_u8_ok Let_def GT911_PRODUCT_ID_LEN_def del: no_suc)
      (simp add: after_read_def log_events_def)
  then show ?thesis
    by (simp add: after_read_def log_events_def init_reg_bytes GT911_PIN_SDA_def
        GT911_PIN_SCL_def GT911_I2C_BAUDRATE_def)
qed

lemma read_point_torn:
  assumes "reply_ok t 0" "reply_ok t 1" "\<not> reply_ok t 2"
  shows "\<exists>s'. read_point out t = (False, out, s') \<and> last_x s' = ucast (reply_byte t 1)
     \<and> last_y s' = last_y t \<and> gt911_dev s' = gt911_dev t \<and> replies s' = replies t
     \<and> served s' = served t + 3"
  using assms
  by (simp add: read_point_def read_u8_cases Let_def del: no_suc) (simp add: after_read_def)

lemma torn_then_idle_ok:
  "reply_ok (touch_ready x y (bus_script torn_then_idle_replies)) 0"
  "reply_ok (touch_ready x y (bus_script torn_then_idle_replies)) 1"
  "reply_ok (touch_ready x y (bus_script torn_then_idle_replies)) 3"
  "reply_ok (touch_ready x y (bus_script torn_then_idle_replies)) 4"
  "\<not> reply_ok (touch_ready x y (bus_script torn_then_idle_replies)) 5"
  unfolding ready_reply by (simp_all add: bus_script_def torn_then_idle_replies_def)

lemma torn_then_idle_bytes:
  "reply_byte (touch_ready x y (bus_script torn_then_idle_replies)) 1 = 0x81"
  "reply_byte (touch_ready x y (bus_script torn_then_idle_replies)) 4 = 0x64"
  unfolding ready_reply by (simp_all add: bus_script_def torn_then_idle_replies_def)

lemma torn_then_idle_next:
  "0 \<le> ret (bus_script torn_then_idle_replies 6)"
  "0 \<le> ret (bus_script torn_then_idle_replies 7)"
  "rx (bus_script torn_then_idle_replies 7) 0 = 0x00"
  by (simp_all add: bus_script_def torn_then_idle_replies_def)

lemma boot_addr: "i2c_addr (gt911_dev (touch_boot rs)) = 0x5D"
  by (simp add: touch_boot_def GT911_I2C_ADDR_def)

section \<open>Claims\<close>

text \<open>
  C1. Touch initialisation, on a driver that is not yet initialised. If any of the twenty
  blocking calls that make up the ten identification and resolution reads reports an error,
  \<^verbatim>\<open>gt911_init\<close> returns failure and the initialised flag stays false. If the bus bring-up
  reports a baud rate and every read succeeds, it returns success with the flag set and
  \<^verbatim>\<open>max_x\<close>, \<^verbatim>\<open>max_y\<close> assembled low byte first from the resolution registers: the log of
  the call is the bring-up followed by the reads of \<^verbatim>\<open>0x8140\<close> (probe), \<^verbatim>\<open>0x8140\<close> to
  \<^verbatim>\<open>0x8143\<close>, \<^verbatim>\<open>0x814A\<close>, \<^verbatim>\<open>0x8146\<close>, \<^verbatim>\<open>0x8147\<close>, \<^verbatim>\<open>0x8148\<close>, \<^verbatim>\<open>0x8149\<close>, each an
  address phase and a data phase, so that the answers 13, 15, 17 and 19 are the bytes read
  from X low \<^verbatim>\<open>0x8146\<close>, X high \<^verbatim>\<open>0x8147\<close>, Y low \<^verbatim>\<open>0x8148\<close> and Y high \<^verbatim>\<open>0x8149\<close>.
  (Nothing is said about the other fields after a failure: see the counterexample below.)
\<close>

theorem gt911_init_outcome:
  assumes "\<not> initialized (gt911_dev s)"
  shows "((\<exists>k<20. \<not> reply_ok s k) \<longrightarrow>
            \<not> fst (gt911_init s) \<and> \<not> initialized (gt911_dev (snd (gt911_init s))))
         \<and> (i2c_baud s \<noteq> 0 \<and> (\<forall>k<20. reply_ok s k) \<longrightarrow>
              fst (gt911_init s) \<and> initialized (gt911_dev (snd (gt911_init s)))
              \<and> max_x (gt911_dev (snd (gt911_init s)))
                  = ucast (reply_byte s 13) OR push_bit 8 (ucast (reply_byte s 15))
              \<and> max_y (gt911_dev (snd (gt911_init s)))
                  = ucast (reply_byte s 17) OR push_bit 8 (ucast (reply_byte s 19))
              \<and> unat (max_x (gt911_dev (snd (gt911_init s))))
                  = unat (reply_byte s 13) + 256 * unat (reply_byte s 15)
              \<and> unat (max_y (gt911_dev (snd (gt911_init s))))
                  = unat (reply_byte s 17) + 256 * unat (reply_byte s 19)
              \<and> issued s (snd (gt911_init s))
                  = [I2cInit 100000,
                     GpioSetFunction 8 GPIO_FUNC_I2C, GpioSetFunction 9 GPIO_FUNC_I2C,
                     GpioPullUp 8, GpioPullUp 9, SleepMs 10,
                     I2cWrite (i2c_addr (gt911_dev s)) [0x81, 0x40] True, I2cRead (i2c_addr (gt911_dev s)) 1 False,
                     I2cWrite (i2c_addr (gt911_dev s)) [0x81, 0x40] True, I2cRead (i2c_addr (gt911_dev s)) 1 False,
                     I2cWrite (i2c_addr (gt911_dev s)) [0x81, 0x41] True, I2cRead (i2c_addr (gt911_dev s)) 1 False,
                     I2cWrite (i2c_addr (gt911_dev s)) [0x81, 0x42] True, I2cRead (i2c_addr (gt911_dev s)) 1 False,
                     I2cWrite (i2c_addr (gt911_dev s)) [0x81, 0x43] True, I2cRead (i2c_addr (gt911_dev s)) 1 False,
                     I2cWrite (i2c_addr (gt911_dev s)) [0x81, 0x4A] True, I2cRead (i2c_addr (gt911_dev s)) 1 False,
                     I2cWrite (i2c_addr (gt911_dev s)) [0x81, 0x46] True, I2cRead (i2c_addr (gt911_dev s)) 1 False,
                     I2cWrite (i2c_addr (gt911_dev s)) [0x81, 0x47] True, I2cRead (i2c_addr (gt911_dev s)) 1 False,
                     I2cWrite (i2c_addr (gt911_dev s)) [0x81, 0x48] True, I2cRead (i2c_addr (gt911_dev s)) 1 False,
                     I2cWrite (i2c_addr (gt911_dev s)) [0x81, 0x49] True, I2cRead (i2c_addr (gt911_dev s)) 1 False])"
proof (intro conjI impI)
  assume "\<exists>k<20. \<not> reply_ok s k"
  then have no: "\<not> (i2c_baud s \<noteq> 0 \<and> (\<forall>k<20. reply_ok s k))" by blast
  show "\<not> fst (gt911_init s)" using gt911_init_fails [OF assms no] ..
  show "\<not> initialized (gt911_dev (snd (gt911_init s)))" using gt911_init_fails [OF assms no] ..
next
  assume h: "i2c_baud s \<noteq> 0 \<and> (\<forall>k<20. reply_ok s k)"
  then have b: "i2c_baud s \<noteq> 0" and r: "\<forall>k<20. reply_ok s k" by blast+
  note dev = gt911_init_ok(2) [OF assms b r]
  show "fst (gt911_init s)" by (rule gt911_init_ok(1) [OF assms b r])
  show "initialized (gt911_dev (snd (gt911_init s)))" unfolding dev by simp
  show x: "max_x (gt911_dev (snd (gt911_init s)))
                  = ucast (reply_byte s 13) OR push_bit 8 (ucast (reply_byte s 15))"
    unfolding dev by simp
  show y: "max_y (gt911_dev (snd (gt911_init s)))
                  = ucast (reply_byte s 17) OR push_bit 8 (ucast (reply_byte s 19))"
    unfolding dev by simp
  show "unat (max_x (gt911_dev (snd (gt911_init s))))
                  = unat (reply_byte s 13) + 256 * unat (reply_byte s 15)"
    unfolding x by (rule le16_unat)
  show "unat (max_y (gt911_dev (snd (gt911_init s))))
                  = unat (reply_byte s 17) + 256 * unat (reply_byte s 19)"
    unfolding y by (rule le16_unat)
  show "issued s (snd (gt911_init s))
                  = [I2cInit 100000,
                     GpioSetFunction 8 GPIO_FUNC_I2C, GpioSetFunction 9 GPIO_FUNC_I2C,
                     GpioPullUp 8, GpioPullUp 9, SleepMs 10,
                     I2cWrite (i2c_addr (gt911_dev s)) [0x81, 0x40] True, I2cRead (i2c_addr (gt911_dev s)) 1 False,
                     I2cWrite (i2c_addr (gt911_dev s)) [0x81, 0x40] True, I2cRead (i2c_addr (gt911_dev s)) 1 False,
                     I2cWrite (i2c_addr (gt911_dev s)) [0x81, 0x41] True, I2cRead (i2c_addr (gt911_dev s)) 1 False,
                     I2cWrite (i2c_addr (gt911_dev s)) [0x81, 0x42] True, I2cRead (i2c_addr (gt911_dev s)) 1 False,
                     I2cWrite (i2c_addr (gt911_dev s)) [0x81, 0x43] True, I2cRead (i2c_addr (gt911_dev s)) 1 False,
                     I2cWrite (i2c_addr (gt911_dev s)) [0x81, 0x4A] True, I2cRead (i2c_addr (gt911_dev s)) 1 False,
                     I2cWrite (i2c_addr (gt911_dev s)) [0x81, 0x46] True, I2cRead (i2c_addr (gt911_dev s)) 1 False,
                     I2cWrite (i2c_addr (gt911_dev s)) [0x81, 0x47] True, I2cRead (i2c_addr (gt911_dev s)) 1 False,
                     I2cWrite (i2c_addr (gt911_dev s)) [0x81, 0x48] True, I2cRead (i2c_addr (gt911_dev s)) 1 False,
                     I2cWrite (i2c_addr (gt911_dev s)) [0x81, 0x49] True, I2cRead (i2c_addr (gt911_dev s)) 1 False]"
    by (rule issued_after) (rule gt911_init_ok_log [OF assms b r])
qed

text \<open>
  Witness for C1: a bus that stops answering at the vendor read, and a bus that answers
  every read with X low \<^verbatim>\<open>0x40\<close>, high \<^verbatim>\<open>0x01\<close> and Y low \<^verbatim>\<open>0xE0\<close>, high \<^verbatim>\<open>0x01\<close>.
\<close>

theorem gt911_init_outcome_witness:
  "\<not> fst (gt911_init (touch_boot (bus_script id_replies)))
   \<and> \<not> initialized (gt911_dev (snd (gt911_init (touch_boot (bus_script id_replies)))))
   \<and> fst (gt911_init (touch_boot (bus_script init_replies)))
   \<and> initialized (gt911_dev (snd (gt911_init (touch_boot (bus_script init_replies)))))
   \<and> max_x (gt911_dev (snd (gt911_init (touch_boot (bus_script init_replies))))) = 0x0140
   \<and> max_y (gt911_dev (snd (gt911_init (touch_boot (bus_script init_replies))))) = 0x01E0
   \<and> issued (touch_boot (bus_script init_replies))
        (snd (gt911_init (touch_boot (bus_script init_replies))))
       = [I2cInit 100000,
                     GpioSetFunction 8 GPIO_FUNC_I2C, GpioSetFunction 9 GPIO_FUNC_I2C,
                     GpioPullUp 8, GpioPullUp 9, SleepMs 10,
                     I2cWrite 0x5D [0x81, 0x40] True, I2cRead 0x5D 1 False,
                     I2cWrite 0x5D [0x81, 0x40] True, I2cRead 0x5D 1 False,
                     I2cWrite 0x5D [0x81, 0x41] True, I2cRead 0x5D 1 False,
                     I2cWrite 0x5D [0x81, 0x42] True, I2cRead 0x5D 1 False,
                     I2cWrite 0x5D [0x81, 0x43] True, I2cRead 0x5D 1 False,
                     I2cWrite 0x5D [0x81, 0x4A] True, I2cRead 0x5D 1 False,
                     I2cWrite 0x5D [0x81, 0x46] True, I2cRead 0x5D 1 False,
                     I2cWrite 0x5D [0x81, 0x47] True, I2cRead 0x5D 1 False,
                     I2cWrite 0x5D [0x81, 0x48] True, I2cRead 0x5D 1 False,
                     I2cWrite 0x5D [0x81, 0x49] True, I2cRead 0x5D 1 False]"
proof -
  have bad: "\<exists>k<20. \<not> reply_ok (touch_boot (bus_script id_replies)) k"
    using id_replies_nak by (intro exI [of _ 10]) simp
  have good: "i2c_baud (touch_boot (bus_script init_replies)) \<noteq> 0
      \<and> (\<forall>k<20. reply_ok (touch_boot (bus_script init_replies)) k)"
    by (simp add: init_replies_ok)
  have fresh: "\<not> initialized (gt911_dev (touch_boot rs))" for rs by simp
  note a = gt911_init_outcome [OF fresh, THEN conjunct1, rule_format, OF bad]
  note b = gt911_init_outcome [OF fresh, THEN conjunct2, rule_format, OF good,
      unfolded init_bytes boot_addr]
  show ?thesis using a b by simp
qed

text \<open>
  Counterexample to C1 as stated (no partial state after a failed initialisation): when the
  vendor read fails, the four identifier bytes read before it are already stored in
  \<^verbatim>\<open>gt911_dev.product_id\<close>.
\<close>

theorem gt911_init_partial_counterexample:
  "(\<exists>k<20. \<not> reply_ok (touch_boot (bus_script id_replies)) k)
   \<and> \<not> fst (gt911_init (touch_boot (bus_script id_replies)))
   \<and> product_id (gt911_dev (touch_boot (bus_script id_replies))) = [0, 0, 0, 0, 0]
   \<and> product_id (gt911_dev (snd (gt911_init (touch_boot (bus_script id_replies)))))
       = [0x39, 0x31, 0x31, 0, 0]"
proof -
  let ?w = "touch_boot (bus_script id_replies)"
  have bad: "\<exists>k<20. \<not> reply_ok ?w k"
    using id_replies_nak by (intro exI [of _ 10]) simp
  have ok: "\<forall>k<10. reply_ok ?w k" by (simp add: id_replies_ok)
  have i: "\<not> initialized (gt911_dev ?w)" and b: "i2c_baud ?w \<noteq> 0" by simp_all
  have "product_id (gt911_dev (snd (gt911_init ?w))) = [0x39, 0x31, 0x31, 0, 0]"
    unfolding gt911_init_vendor_nak(2) [OF i b ok id_replies_nak] id_bytes by simp
  then show ?thesis using bad gt911_init_vendor_nak(1) [OF i b ok id_replies_nak] by simp
qed

text \<open>
  C2. On an initialised driver whose status read succeeded, \<^verbatim>\<open>gt911_read_touch\<close> returns
  success exactly when the contact count is not 1, or the contact count is 1 and all four
  coordinate reads (blocking calls 3 to 10 of the call) succeed.
\<close>

theorem read_touch_returns_success:
  assumes "initialized (gt911_dev s)" "reply_ok s 0" "reply_ok s 1"
  shows "fst (gt911_read_touch out s) =
           (unat (reply_byte s 1) mod 16 \<noteq> 1 \<or> (\<forall>k\<in>{3..<11}. reply_ok s k))"
proof (cases "unat (reply_byte s 1) mod 16 = 1")
  case True
  have "fst (gt911_read_touch out s) = (\<forall>k\<in>{3..<11}. reply_ok s k)"
    unfolding gt911_read_touch_one [OF assms True] read_point_fst point_replies ..
  then show ?thesis using True by simp
next
  case False
  then show ?thesis using gt911_read_touch_other [OF assms False, of out] by simp
qed

text \<open>Witness for C2: status \<^verbatim>\<open>0x81\<close> and four coordinate reads that succeed.\<close>

theorem read_touch_returns_success_witness:
  "fst (gt911_read_touch (0, 0, False) (touch_ready 7 9 (bus_script press_replies)))"
proof -
  let ?w = "touch_ready 7 9 (bus_script press_replies)"
  have all: "\<forall>k\<in>{3..<11}. reply_ok ?w k" by (simp add: press_replies_ok)
  have i: "initialized (gt911_dev ?w)" and r0: "reply_ok ?w 0" and r1: "reply_ok ?w 1"
    by (simp_all add: press_replies_ok)
  show ?thesis
    unfolding read_touch_returns_success [OF i r0 r1] using all by blast
qed

text \<open>
  Counterexample to C2 as stated (success in every branch once the status has been read):
  with status \<^verbatim>\<open>0x81\<close> and a bus that does not answer the first coordinate read, the call
  returns failure.
\<close>

theorem read_touch_fails_after_status_counterexample:
  "initialized (gt911_dev (touch_ready 7 9 (bus_script [answer 0, answer 0x81, answer 0])))
   \<and> reply_ok (touch_ready 7 9 (bus_script [answer 0, answer 0x81, answer 0])) 0
   \<and> reply_ok (touch_ready 7 9 (bus_script [answer 0, answer 0x81, answer 0])) 1
   \<and> \<not> fst (gt911_read_touch (0, 0, False)
              (touch_ready 7 9 (bus_script [answer 0, answer 0x81, answer 0])))"
proof -
  let ?w = "touch_ready 7 9 (bus_script [answer 0, answer 0x81, answer 0])"
  have i: "initialized (gt911_dev ?w)" by (simp add: touch_ready_def)
  have r0: "reply_ok ?w 0" by (simp add: reply_ok_def touch_ready_def bus_script_def answer_def)
  have r1: "reply_ok ?w 1" by (simp add: reply_ok_def touch_ready_def bus_script_def answer_def)
  have b: "reply_byte ?w 1 = 0x81" by (simp add: reply_byte_def touch_ready_def bus_script_def answer_def)
  have r3: "\<not> reply_ok ?w 3" by (simp add: reply_ok_def touch_ready_def bus_script_def nak_def)
  have c: "unat (reply_byte ?w 1) mod 16 = 1" unfolding b by simp
  have one: "gt911_read_touch (0, 0, False) ?w
      = read_point (0, 0, False) (after_ack (after_read GT911_REG_STATUS ?w))"
    by (rule gt911_read_touch_one [OF i r0 r1 c])
  have "reply_ok (after_ack (after_read GT911_REG_STATUS ?w)) 0 = reply_ok ?w 3"
    by (simp del: no_suc)
  with r3 have "\<not> reply_ok (after_ack (after_read GT911_REG_STATUS ?w)) 0" by simp
  then have "\<not> (\<forall>k<8. reply_ok (after_ack (after_read GT911_REG_STATUS ?w)) k)"
    by (meson zero_less_numeral)
  then have "\<not> fst (gt911_read_touch (0, 0, False) ?w)"
    unfolding one read_point_fst .
  then show ?thesis using i r0 r1 by blast
qed

text \<open>
  C3. On an initialised driver whose status read succeeded with status byte \<open>b\<close>, the call
  issues exactly one register write, the single byte \<^verbatim>\<open>0x00\<close> to register \<^verbatim>\<open>0x814E\<close>, if
  bit 7 of \<open>b\<close> is set or the low four bits of \<open>b\<close> are below 6, and no register write
  otherwise. With \<open>b = 0\<close> the call succeeds, reports the retained coordinate with
  \<open>pressed = False\<close>, keeps the retained coordinate and still acknowledges.
\<close>

theorem read_touch_acknowledges:
  assumes "initialized (gt911_dev s)" "reply_ok s 0" "reply_ok s 1"
  shows "register_writes (issued s (snd (snd (gt911_read_touch out s))))
           = (if bit (reply_byte s 1) 7 \<or> unat (reply_byte s 1) mod 16 < 6
              then [(i2c_addr (gt911_dev s), [0x81, 0x4E, 0x00])] else [])
         \<and> (reply_byte s 1 = 0 \<longrightarrow>
              fst (gt911_read_touch out s)
              \<and> fst (snd (gt911_read_touch out s)) = (last_x s, last_y s, False)
              \<and> last_x (snd (snd (gt911_read_touch out s))) = last_x s
              \<and> last_y (snd (snd (gt911_read_touch out s))) = last_y s
              \<and> issued s (snd (snd (gt911_read_touch out s)))
                  = [I2cWrite (i2c_addr (gt911_dev s)) [0x81, 0x4E] True,
                     I2cRead (i2c_addr (gt911_dev s)) 1 False,
                     I2cWrite (i2c_addr (gt911_dev s)) [0x81, 0x4E, 0x00] False])"
proof (cases "unat (reply_byte s 1) mod 16 = 1")
  case True
  let ?t = "after_ack (after_read GT911_REG_STATUS s)"
  have rt: "gt911_read_touch out s = read_point out ?t"
    by (rule gt911_read_touch_one [OF assms True])
  obtain rest where rest: "i2c_log (snd (snd (read_point out ?t))) =
      i2c_log ?t @ I2cWrite (i2c_addr (gt911_dev ?t)) [0x81, 0x50] True # rest"
      "register_writes rest = []"
    using read_point_issued [of out ?t] by blast
  have "issued s (snd (snd (gt911_read_touch out s))) =
      [I2cWrite (i2c_addr (gt911_dev s)) [0x81, 0x4E] True, I2cRead (i2c_addr (gt911_dev s)) 1 False,
       ack_event s, I2cWrite (i2c_addr (gt911_dev s)) [0x81, 0x50] True] @ rest"
    unfolding rt by (rule issued_after) (simp add: rest ack_log status_log)
  moreover have "reply_byte s 1 \<noteq> 0" using True by auto
  ultimately show ?thesis using True rest(2) by (simp add: ack_event_def)
next
  case False
  have rt: "gt911_read_touch out s =
     (True, (last_x s, last_y s, False),
      if ack_due (reply_byte s 1) then after_ack (after_read GT911_REG_STATUS s)
      else after_read GT911_REG_STATUS s)"
    by (rule gt911_read_touch_other [OF assms False])
  have z: "reply_byte s 1 = 0 \<Longrightarrow> ack_due (reply_byte s 1)"
    by (simp add: ack_due_def)
  show ?thesis unfolding rt
    by (auto simp: issued_def ack_log status_log ack_event_def ack_due_def)
qed

text \<open>
  Witness for C3: status \<^verbatim>\<open>0x00\<close> (acknowledged, retained coordinate \<open>(7, 9)\<close> reported)
  and status \<^verbatim>\<open>0x06\<close> (ready bit clear, count 6: not acknowledged).
\<close>

theorem read_touch_acknowledges_witness:
  "fst (snd (gt911_read_touch (0, 0, False) (touch_ready 7 9 (bus_script idle_replies))))
     = (7, 9, False)
   \<and> register_writes (issued (touch_ready 7 9 (bus_script idle_replies))
        (snd (snd (gt911_read_touch (0, 0, False) (touch_ready 7 9 (bus_script idle_replies))))))
     = [(0x5D, [0x81, 0x4E, 0x00])]
   \<and> register_writes (issued (touch_ready 7 9 (bus_script busy_replies))
        (snd (snd (gt911_read_touch (0, 0, False) (touch_ready 7 9 (bus_script busy_replies))))))
     = []"
proof -
  let ?w = "touch_ready 7 9 (bus_script idle_replies)"
  let ?v = "touch_ready 7 9 (bus_script busy_replies)"
  have w: "initialized (gt911_dev ?w)" "reply_ok ?w 0" "reply_ok ?w 1"
    by (simp_all add: idle_replies_ok)
  have v: "initialized (gt911_dev ?v)" "reply_ok ?v 0" "reply_ok ?v 1"
    by (simp_all add: busy_replies_ok)
  note a = read_touch_acknowledges [OF w, of "(0, 0, False)", unfolded status_bytes]
  note b = read_touch_acknowledges [OF v, of "(0, 0, False)", unfolded status_bytes]
  show ?thesis using a b by simp
qed

text \<open>
  The part of C4 that holds. The retained coordinate is left as it was by a call on an
  uninitialised driver, a failed status read, a sample whose contact count is not 1, and a
  single-contact sample whose first coordinate read fails. When the contact count is 1 and
  all four coordinate reads succeed, the call reads X low, X high, Y low, Y high in four
  separate register transactions after the acknowledgment, stores the two coordinates
  assembled low byte first as the retained coordinate, and reports them with
  \<open>pressed = True\<close>.
\<close>

theorem retained_coordinate:
  "(\<not> (initialized (gt911_dev s) \<and> reply_ok s 0 \<and> reply_ok s 1
        \<and> unat (reply_byte s 1) mod 16 = 1 \<and> reply_ok s 3 \<and> reply_ok s 4) \<longrightarrow>
      last_x (snd (snd (gt911_read_touch out s))) = last_x s
      \<and> last_y (snd (snd (gt911_read_touch out s))) = last_y s)
   \<and> (initialized (gt911_dev s) \<and> reply_ok s 0 \<and> reply_ok s 1
        \<and> unat (reply_byte s 1) mod 16 = 1 \<and> (\<forall>k\<in>{3..<11}. reply_ok s k) \<longrightarrow>
      fst (gt911_read_touch out s)
      \<and> fst (snd (gt911_read_touch out s))
          = (ucast (reply_byte s 4) OR push_bit 8 (ucast (reply_byte s 6)),
             ucast (reply_byte s 8) OR push_bit 8 (ucast (reply_byte s 10)), True)
      \<and> unat (last_x (snd (snd (gt911_read_touch out s))))
          = unat (reply_byte s 4) + 256 * unat (reply_byte s 6)
      \<and> unat (last_y (snd (snd (gt911_read_touch out s))))
          = unat (reply_byte s 8) + 256 * unat (reply_byte s 10)
      \<and> issued s (snd (snd (gt911_read_touch out s)))
          = [I2cWrite (i2c_addr (gt911_dev s)) [0x81, 0x4E] True,
             I2cRead (i2c_addr (gt911_dev s)) 1 False,
             I2cWrite (i2c_addr (gt911_dev s)) [0x81, 0x4E, 0x00] False,
             I2cWrite (i2c_addr (gt911_dev s)) [0x81, 0x50] True,
             I2cRead (i2c_addr (gt911_dev s)) 1 False,
             I2cWrite (i2c_addr (gt911_dev s)) [0x81, 0x51] True,
             I2cRead (i2c_addr (gt911_dev s)) 1 False,
             I2cWrite (i2c_addr (gt911_dev s)) [0x81, 0x52] True,
             I2cRead (i2c_addr (gt911_dev s)) 1 False,
             I2cWrite (i2c_addr (gt911_dev s)) [0x81, 0x53] True,
             I2cRead (i2c_addr (gt911_dev s)) 1 False])"
proof (intro conjI impI)
  assume n: "\<not> (initialized (gt911_dev s) \<and> reply_ok s 0 \<and> reply_ok s 1
        \<and> unat (reply_byte s 1) mod 16 = 1 \<and> reply_ok s 3 \<and> reply_ok s 4)"
  have keep: "last_x (snd (snd (gt911_read_touch out s))) = last_x s
      \<and> last_y (snd (snd (gt911_read_touch out s))) = last_y s"
  proof (cases "initialized (gt911_dev s)")
    case False
    then show ?thesis by (simp add: gt911_read_touch_uninit)
  next
    case init: True
    show ?thesis
    proof (cases "reply_ok s 0 \<and> reply_ok s 1")
      case False
      then show ?thesis using gt911_read_touch_status_fail [OF init False, of out] by auto
    next
      case ok: True
      show ?thesis
      proof (cases "unat (reply_byte s 1) mod 16 = 1")
        case False
        then show ?thesis using gt911_read_touch_other [of s out] init ok by simp
      next
        case True
        let ?t = "after_ack (after_read GT911_REG_STATUS s)"
        have rt: "gt911_read_touch out s = read_point out ?t"
          using gt911_read_touch_one [of s out] init ok True by simp
        have "reply_ok ?t 0 = reply_ok s 3" "reply_ok ?t 1 = reply_ok s 4"
          by (simp_all del: no_suc)
        then have "\<not> (reply_ok ?t 0 \<and> reply_ok ?t 1)" using n init ok True by simp
        then show ?thesis unfolding rt using read_point_first_fail [of ?t out] by simp
      qed
    qed
  qed
  show "last_x (snd (snd (gt911_read_touch out s))) = last_x s" using keep ..
  show "last_y (snd (snd (gt911_read_touch out s))) = last_y s" using keep ..
next
  assume h: "initialized (gt911_dev s) \<and> reply_ok s 0 \<and> reply_ok s 1
        \<and> unat (reply_byte s 1) mod 16 = 1 \<and> (\<forall>k\<in>{3..<11}. reply_ok s k)"
  let ?t = "after_ack (after_read GT911_REG_STATUS s)"
  have rt: "gt911_read_touch out s = read_point out ?t"
    using gt911_read_touch_one [of s out] h by simp
  from h have "\<forall>k\<in>{3..<11}. reply_ok s k" by blast
  then have all: "\<forall>k<8. reply_ok ?t k" by (simp only: point_replies)
  have b: "reply_byte ?t 1 = reply_byte s 4" "reply_byte ?t 3 = reply_byte s 6"
      "reply_byte ?t 5 = reply_byte s 8" "reply_byte ?t 7 = reply_byte s 10"
    by (simp_all del: no_suc)
  show "fst (gt911_read_touch out s)" unfolding rt read_point_fst by (rule all)
  show "fst (snd (gt911_read_touch out s))
          = (ucast (reply_byte s 4) OR push_bit 8 (ucast (reply_byte s 6)),
             ucast (reply_byte s 8) OR push_bit 8 (ucast (reply_byte s 10)), True)"
    unfolding rt read_point_ok(1) [OF all] b ..
  show "unat (last_x (snd (snd (gt911_read_touch out s))))
          = unat (reply_byte s 4) + 256 * unat (reply_byte s 6)"
    unfolding rt read_point_ok(2) [OF all] b by (rule le16_unat)
  show "unat (last_y (snd (snd (gt911_read_touch out s))))
          = unat (reply_byte s 8) + 256 * unat (reply_byte s 10)"
    unfolding rt read_point_ok(3) [OF all] b by (rule le16_unat)
  show "issued s (snd (snd (gt911_read_touch out s)))
          = [I2cWrite (i2c_addr (gt911_dev s)) [0x81, 0x4E] True,
             I2cRead (i2c_addr (gt911_dev s)) 1 False,
             I2cWrite (i2c_addr (gt911_dev s)) [0x81, 0x4E, 0x00] False,
             I2cWrite (i2c_addr (gt911_dev s)) [0x81, 0x50] True,
             I2cRead (i2c_addr (gt911_dev s)) 1 False,
             I2cWrite (i2c_addr (gt911_dev s)) [0x81, 0x51] True,
             I2cRead (i2c_addr (gt911_dev s)) 1 False,
             I2cWrite (i2c_addr (gt911_dev s)) [0x81, 0x52] True,
             I2cRead (i2c_addr (gt911_dev s)) 1 False,
             I2cWrite (i2c_addr (gt911_dev s)) [0x81, 0x53] True,
             I2cRead (i2c_addr (gt911_dev s)) 1 False]"
    unfolding rt
    by (rule issued_after) (simp add: read_point_ok(4) [OF all] ack_log status_log ack_event_def)
qed

text \<open>
  At concrete inputs: status \<^verbatim>\<open>0x81\<close> with \<^verbatim>\<open>X_L = 0x64, X_H = 0x00, Y_L = 0xC8, Y_H = 0x00\<close>
  gives \<open>(100, 200)\<close> pressed; status \<^verbatim>\<open>0x00\<close> keeps the retained \<open>(7, 9)\<close>.
\<close>

theorem retained_coordinate_witness:
  "fst (snd (gt911_read_touch (0, 0, False) (touch_ready 7 9 (bus_script press_replies))))
     = (100, 200, True)
   \<and> unat (last_x (snd (snd (gt911_read_touch (0, 0, False)
        (touch_ready 7 9 (bus_script press_replies)))))) = 100
   \<and> unat (last_y (snd (snd (gt911_read_touch (0, 0, False)
        (touch_ready 7 9 (bus_script press_replies)))))) = 200
   \<and> last_x (snd (snd (gt911_read_touch (0, 0, False)
        (touch_ready 7 9 (bus_script idle_replies))))) = 7
   \<and> last_y (snd (snd (gt911_read_touch (0, 0, False)
        (touch_ready 7 9 (bus_script idle_replies))))) = 9"
proof -
  let ?w = "touch_ready 7 9 (bus_script press_replies)"
  let ?v = "touch_ready 7 9 (bus_script idle_replies)"
  have c: "unat (reply_byte ?w 1) mod 16 = 1" unfolding press_bytes by simp
  have "\<forall>k\<in>{3..<11}. reply_ok ?w k" by (simp add: press_replies_ok)
  then have w: "initialized (gt911_dev ?w) \<and> reply_ok ?w 0 \<and> reply_ok ?w 1
        \<and> unat (reply_byte ?w 1) mod 16 = 1 \<and> (\<forall>k\<in>{3..<11}. reply_ok ?w k)"
    using c by (simp add: press_replies_ok)
  have "unat (reply_byte ?v 1) mod 16 \<noteq> 1" unfolding status_bytes by simp
  then have v: "\<not> (initialized (gt911_dev ?v) \<and> reply_ok ?v 0 \<and> reply_ok ?v 1
        \<and> unat (reply_byte ?v 1) mod 16 = 1 \<and> reply_ok ?v 3 \<and> reply_ok ?v 4)"
    by blast
  note a = retained_coordinate [of ?w "(0, 0, False)", THEN conjunct2, rule_format, OF w,
      unfolded press_bytes]
  note b = retained_coordinate [of ?v "(0, 0, False)", THEN conjunct1, rule_format, OF v]
  show ?thesis using a b by simp
qed

text \<open>
  C4. The retained last-known coordinate is to be replaced only by a successful
  single-contact read and never altered by a failed read. The driver breaks this: the
  branch of a single contact assembles the coordinate in place, in \<^verbatim>\<open>last_x\<close> and
  \<^verbatim>\<open>last_y\<close> themselves. On a driver retaining \<^verbatim>\<open>(0x1234, 0x0056)\<close>, a sample with status
  \<^verbatim>\<open>0x81\<close> whose X low read delivers \<^verbatim>\<open>0x64\<close> and whose X high read is not acknowledged
  returns failure and leaves \<^verbatim>\<open>0x0064\<close> as the retained X; the next poll, with status
  \<^verbatim>\<open>0x00\<close>, reports the position \<^verbatim>\<open>(0x0064, 0x0056)\<close>, released, which was never touched.
\<close>

theorem retained_coordinate_torn_read:
  "\<not> fst (gt911_read_touch (0, 0, False)
          (touch_ready 0x1234 0x0056 (bus_script torn_then_idle_replies)))
   \<and> last_x (touch_ready 0x1234 0x0056 (bus_script torn_then_idle_replies)) = 0x1234
   \<and> last_x (snd (snd (gt911_read_touch (0, 0, False)
        (touch_ready 0x1234 0x0056 (bus_script torn_then_idle_replies))))) = 0x0064
   \<and> gt911_read_touch (0, 0, False)
        (snd (snd (gt911_read_touch (0, 0, False)
          (touch_ready 0x1234 0x0056 (bus_script torn_then_idle_replies)))))
       = (True, (0x0064, 0x0056, False),
          snd (snd (gt911_read_touch (0, 0, False)
            (snd (snd (gt911_read_touch (0, 0, False)
              (touch_ready 0x1234 0x0056 (bus_script torn_then_idle_replies))))))))"
proof -
  let ?w = "touch_ready 0x1234 0x0056 (bus_script torn_then_idle_replies)"
  let ?t = "after_ack (after_read GT911_REG_STATUS ?w)"
  have c: "unat (reply_byte ?w 1) mod 16 = 1" unfolding torn_then_idle_bytes by simp
  have rt: "gt911_read_touch (0, 0, False) ?w = read_point (0, 0, False) ?t"
    by (rule gt911_read_touch_one [OF _ torn_then_idle_ok(1,2) c]) simp
  have "reply_ok ?t 0 = reply_ok ?w 3" "reply_ok ?t 1 = reply_ok ?w 4"
    "reply_ok ?t 2 = reply_ok ?w 5" "reply_byte ?t 1 = reply_byte ?w 4"
    by (simp_all del: no_suc)
  then have t: "reply_ok ?t 0" "reply_ok ?t 1" "\<not> reply_ok ?t 2" "reply_byte ?t 1 = 0x64"
    by (simp_all add: torn_then_idle_ok torn_then_idle_bytes)
  have tw: "replies ?t = bus_script torn_then_idle_replies" "served ?t = 3" "last_y ?t = 0x0056"
    "initialized (gt911_dev ?t)"
    by (simp_all add: after_ack_def after_read_def touch_ready_def)
  obtain s' where s': "read_point (0, 0, False) ?t = (False, (0, 0, False), s')"
      "last_x s' = ucast (reply_byte ?t 1)" "last_y s' = last_y ?t"
      "gt911_dev s' = gt911_dev ?t" "replies s' = replies ?t" "served s' = served ?t + 3"
    using read_point_torn [OF t(1-3), of "(0, 0, False)"] by blast
  have x: "last_x s' = 0x0064" and y: "last_y s' = 0x0056"
    unfolding s'(2,3) t(4) tw(3) by simp_all
  have i: "initialized (gt911_dev s')" unfolding s'(4) by (rule tw(4))
  have r0: "reply_ok s' 0" and r1: "reply_ok s' 1"
    unfolding reply_ok_def s'(5,6) tw(1,2) by (simp_all add: torn_then_idle_next)
  have b: "reply_byte s' 1 = 0x00"
    unfolding reply_byte_def s'(5,6) tw(1,2) by (simp add: torn_then_idle_next)
  have n: "unat (reply_byte s' 1) mod 16 \<noteq> 1" unfolding b by simp
  have next_poll: "gt911_read_touch (0, 0, False) s'
      = (True, (0x0064, 0x0056, False), snd (snd (gt911_read_touch (0, 0, False) s')))"
    using gt911_read_touch_other [OF i r0 r1 n, of "(0, 0, False)"] x y by simp
  have first: "snd (snd (gt911_read_touch (0, 0, False) ?w)) = s'"
    and fail: "\<not> fst (gt911_read_touch (0, 0, False) ?w)"
    unfolding rt s'(1) by simp_all
  show ?thesis unfolding first using fail x next_poll by simp
qed

text \<open>
  The divergence of C4 at this input: the failed call has altered the retained X, and the
  following poll does not report the coordinate retained before the failure.
\<close>

theorem retained_coordinate_torn_read_witness:
  "last_x (snd (snd (gt911_read_touch (0, 0, False)
        (touch_ready 0x1234 0x0056 (bus_script torn_then_idle_replies)))))
     \<noteq> last_x (touch_ready 0x1234 0x0056 (bus_script torn_then_idle_replies))
   \<and> fst (snd (gt911_read_touch (0, 0, False)
        (snd (snd (gt911_read_touch (0, 0, False)
          (touch_ready 0x1234 0x0056 (bus_script torn_then_idle_replies)))))))
     \<noteq> (0x1234, 0x0056, False)"
proof -
  let ?w = "touch_ready 0x1234 0x0056 (bus_script torn_then_idle_replies)"
  let ?s = "snd (snd (gt911_read_touch (0, 0, False) ?w))"
  note t = retained_coordinate_torn_read
  from t have x: "last_x ?s = 0x0064" by blast
  from t have n: "gt911_read_touch (0, 0, False) ?s
      = (True, (0x0064, 0x0056, False), snd (snd (gt911_read_touch (0, 0, False) ?s)))"
    by blast
  have "fst (snd (gt911_read_touch (0, 0, False) ?s)) = (0x0064, 0x0056, False)"
    by (subst n) simp
  then have "fst (snd (gt911_read_touch (0, 0, False) ?s)) \<noteq> (0x1234, 0x0056, False)"
    by simp
  moreover have "last_x ?s \<noteq> last_x ?w" unfolding x by simp
  ultimately show ?thesis by blast
qed

text \<open>
  C5. A flush while updates are disabled adds nothing to the log but the completion signal.
  A flush while updates are enabled adds what \<^verbatim>\<open>st7796_set_window\<close> emits for the corners
  of the area, then what \<^verbatim>\<open>st7796_write_color\<close> emits for a pixel count of width times
  height of the area, then the completion signal. In both cases the completion signal
  occurs exactly once.
\<close>

theorem disp_flush_completion:
  "(\<not> disp_flush_enabled s \<longrightarrow> emitted s (disp_flush area color_p s) = [LvFlushReady])
   \<and> (disp_flush_enabled s \<longrightarrow>
        (let w = st7796_set_window (area_x1 area) (area_y1 area) (area_x2 area) (area_y2 area) s;
             c = st7796_write_color color_p
                   (word_of_int (sint (lv_area_get_width area) * sint (lv_area_get_height area))) w
         in emitted s (disp_flush area color_p s) = emitted s w @ emitted w c @ [LvFlushReady]))
   \<and> count_list (emitted s (disp_flush area color_p s)) LvFlushReady = 1
   \<and> (0 \<le> sint (lv_area_get_width area) \<and> 0 \<le> sint (lv_area_get_height area) \<longrightarrow>
        unat (word_of_int (sint (lv_area_get_width area) * sint (lv_area_get_height area)) :: u32)
          = nat (sint (lv_area_get_width area)) * nat (sint (lv_area_get_height area)))"
proof -
  define w where "w = st7796_set_window (area_x1 area) (area_y1 area) (area_x2 area) (area_y2 area) s"
  define c where "c = st7796_write_color color_p
                   (word_of_int (sint (lv_area_get_width area) * sint (lv_area_get_height area))) w"
  obtain a where a: "wire w = wire s @ a" "LvFlushReady \<notin> set a"
    unfolding w_def using st7796_set_window_wire by blast
  obtain b where b: "wire c = wire w @ b" "LvFlushReady \<notin> set b"
    unfolding c_def using st7796_write_color_wire by blast
  have off: "\<not> disp_flush_enabled s \<Longrightarrow> emitted s (disp_flush area color_p s) = [LvFlushReady]"
    by (simp add: disp_flush_def lv_disp_flush_ready_def emitted_emit)
  have on: "disp_flush_enabled s \<Longrightarrow>
      emitted s (disp_flush area color_p s) = emitted s w @ emitted w c @ [LvFlushReady]"
    using a b unfolding w_def c_def
    by (simp add: disp_flush_def lv_disp_flush_ready_def emitted_def emit_def Let_def)
  have cnt: "count_list (emitted s (disp_flush area color_p s)) LvFlushReady = 1"
  proof (cases "disp_flush_enabled s")
    case False
    then show ?thesis using off by simp
  next
    case True
    have "emitted s w = a" "emitted w c = b" using a b by (simp_all add: emitted_def)
    then show ?thesis using on [OF True] a b by (simp add: count_list_notin)
  qed
  have size: "0 \<le> sint (lv_area_get_width area) \<and> 0 \<le> sint (lv_area_get_height area) \<longrightarrow>
        unat (word_of_int (sint (lv_area_get_width area) * sint (lv_area_get_height area)) :: u32)
          = nat (sint (lv_area_get_width area)) * nat (sint (lv_area_get_height area))"
    using flush_size_exact by blast
  have "(\<not> disp_flush_enabled s \<longrightarrow> emitted s (disp_flush area color_p s) = [LvFlushReady])
   \<and> (disp_flush_enabled s \<longrightarrow>
        (let w = st7796_set_window (area_x1 area) (area_y1 area) (area_x2 area) (area_y2 area) s;
             c = st7796_write_color color_p
                   (word_of_int (sint (lv_area_get_width area) * sint (lv_area_get_height area))) w
         in emitted s (disp_flush area color_p s) = emitted s w @ emitted w c @ [LvFlushReady]))
   \<and> count_list (emitted s (disp_flush area color_p s)) LvFlushReady = 1"
    using off on cnt by (simp add: Let_def w_def c_def)
  then show ?thesis using size by blast
qed

text \<open>
  Witness for C5: a two-pixel area, flushed with updates disabled and with updates enabled.
\<close>

theorem disp_flush_completion_witness:
  "emitted (disp_disable_update disp_boot)
     (disp_flush area_ex (Some [1, 2, 3, 4]) (disp_disable_update disp_boot)) = [LvFlushReady]
   \<and> emitted disp_boot (disp_flush area_ex (Some [1, 2, 3, 4]) disp_boot)
     = emitted disp_boot (st7796_set_window 0 0 1 0 disp_boot)
       @ [GpioPut ST7796_PIN_CS False, GpioPut ST7796_PIN_DC True, SpiWrite [1, 2, 3, 4],
          GpioPut ST7796_PIN_CS True]
       @ [LvFlushReady]
   \<and> 0 \<le> sint (lv_area_get_width area_ex) \<and> 0 \<le> sint (lv_area_get_height area_ex)
   \<and> unat (word_of_int (sint (lv_area_get_width area_ex) * sint (lv_area_get_height area_ex))
        :: u32) = 2"
proof -
  have off: "\<not> disp_flush_enabled (disp_disable_update disp_boot)"
    by (simp add: disp_disable_update_def)
  have on: "disp_flush_enabled disp_boot"
    by (simp add: disp_boot_def)
  show ?thesis
    using disp_flush_completion [of "disp_disable_update disp_boot" area_ex "Some [1, 2, 3, 4]"]
      disp_flush_completion [of disp_boot area_ex "Some [1, 2, 3, 4]"] off on
    by (simp add: Let_def area_ex_def lv_area_get_width_def lv_area_get_height_def
        st7796_write_color_emit emitted_emit)
qed

text \<open>
  C6. For a count of 0, \<^verbatim>\<open>st7796_write_color\<close> emits nothing. For every count
  \<open>len > 0\<close> and every buffer that holds the \<open>len\<close> pixels (at least \<open>2 * len\<close> bytes),
  it emits one data transfer of exactly the first \<open>2 * len\<close> bytes of the buffer,
  unchanged. The buffer is an object in the 32-bit address space of the target, hence
  shorter than \<open>2 ^ 32\<close> bytes; so the byte count \<^verbatim>\<open>len * 2\<close>, computed in
  \<^verbatim>\<open>uint32_t\<close>, does not wrap.
\<close>

theorem write_color_bytes:
  "emitted s (st7796_write_color color 0 s) = []
   \<and> (0 < unat len \<and> 2 * unat len \<le> length buf \<and> length buf < 2 ^ 32 \<longrightarrow>
        emitted s (st7796_write_color (Some buf) len s)
          = [GpioPut ST7796_PIN_CS False, GpioPut ST7796_PIN_DC True,
             SpiWrite (take (2 * unat len) buf), GpioPut ST7796_PIN_CS True]
        \<and> spi_bytes (emitted s (st7796_write_color (Some buf) len s)) = take (2 * unat len) buf
        \<and> length (spi_bytes (emitted s (st7796_write_color (Some buf) len s))) = 2 * unat len)"
proof (intro conjI impI)
  show "emitted s (st7796_write_color color 0 s) = []"
    by (simp add: st7796_write_color_def emitted_def split: option.split)
next
  assume h: "0 < unat len \<and> 2 * unat len \<le> length buf \<and> length buf < 2 ^ 32"
  then have nz: "len \<noteq> 0" by (auto simp: unat_gt_0)
  from h have "2 * unat len < 2 ^ 32" by linarith
  then have "unat len < 2 ^ 31" by simp
  then have tw: "unat (len * 2) = 2 * unat len" by (rule unat_twice)
  show "emitted s (st7796_write_color (Some buf) len s)
          = [GpioPut ST7796_PIN_CS False, GpioPut ST7796_PIN_DC True,
             SpiWrite (take (2 * unat len) buf), GpioPut ST7796_PIN_CS True]"
    by (simp add: st7796_write_color_emit [OF nz] emitted_emit tw)
  then show "spi_bytes (emitted s (st7796_write_color (Some buf) len s)) = take (2 * unat len) buf"
    by simp
  then show "length (spi_bytes (emitted s (st7796_write_color (Some buf) len s))) = 2 * unat len"
    using h by simp
qed

text \<open>Witness for C6: two pixels out of a five-byte buffer.\<close>

theorem write_color_bytes_witness:
  "spi_bytes (emitted disp_boot (st7796_write_color (Some [1, 2, 3, 4, 5]) 2 disp_boot))
     = [1, 2, 3, 4]"
  using write_color_bytes [of disp_boot None 2 "[1, 2, 3, 4, 5]"] by simp

text \<open>
  C7. For each of the four orientations, \<^verbatim>\<open>st7796_set_orientation\<close> sends the command byte
  \<^verbatim>\<open>0x36\<close> followed by exactly one data byte: \<^verbatim>\<open>0x48\<close> for portrait, \<^verbatim>\<open>0x28\<close> for
  landscape, \<^verbatim>\<open>0x88\<close> for inverted portrait, \<^verbatim>\<open>0xE8\<close> for inverted landscape; and the
  orientation is stored in \<^verbatim>\<open>current_orientation\<close>.
\<close>

theorem set_orientation_register_byte:
  "spi_frames dc (emitted s (st7796_set_orientation ST7796_PORTRAIT s))
     = [(False, [0x36]), (True, [0x48])]
   \<and> spi_frames dc (emitted s (st7796_set_orientation ST7796_LANDSCAPE s))
     = [(False, [0x36]), (True, [0x28])]
   \<and> spi_frames dc (emitted s (st7796_set_orientation ST7796_PORTRAIT_INV s))
     = [(False, [0x36]), (True, [0x88])]
   \<and> spi_frames dc (emitted s (st7796_set_orientation ST7796_LANDSCAPE_INV s))
     = [(False, [0x36]), (True, [0xE8])]
   \<and> current_orientation (st7796_set_orientation orientation s) = orientation"
  by (simp add: st7796_set_orientation_emit emitted_emit_upd madctl_value_def
      ST7796_PIN_CS_def ST7796_PIN_DC_def) (simp add: emit_def)

text \<open>
  C8. \<^verbatim>\<open>st7796_set_window\<close> sends, for all coordinates (in particular for \<open>x1 \<le> x2\<close> and
  \<open>y1 \<le> y2\<close>), the column command \<^verbatim>\<open>0x2A\<close> with the four data bytes x1 high, x1 low,
  x2 high, x2 low, then the row command \<^verbatim>\<open>0x2B\<close> with y1 high, y1 low, y2 high, y2 low,
  then the command \<^verbatim>\<open>0x2C\<close> with no data.
\<close>

theorem set_window_range_commands:
  "spi_frames dc (emitted s (st7796_set_window x1 y1 x2 y2 s))
     = [(False, [0x2A]),
        (True, [word_of_nat (unat x1 div 256), word_of_nat (unat x1 mod 256),
                word_of_nat (unat x2 div 256), word_of_nat (unat x2 mod 256)]),
        (False, [0x2B]),
        (True, [word_of_nat (unat y1 div 256), word_of_nat (unat y1 mod 256),
                word_of_nat (unat y2 div 256), word_of_nat (unat y2 mod 256)]),
        (False, [0x2C])]"
  by (simp add: st7796_set_window_emit emitted_emit ST7796_PIN_CS_def ST7796_PIN_DC_def
      flip: hi_byte_unat lo_byte_unat)

text \<open>
  C9. After a successful \<^verbatim>\<open>gt911_init\<close> the driver is initialised; on an initialised
  driver \<^verbatim>\<open>gt911_init\<close> returns success and leaves the whole state, the log included, as
  it was, however often it is called; and \<^verbatim>\<open>gt911_read_touch\<close> keeps the driver
  initialised in between.
\<close>

theorem gt911_init_idempotent:
  "(fst (gt911_init s) \<longrightarrow>
      initialized (gt911_dev (snd (gt911_init s)))
      \<and> gt911_init (snd (gt911_init s)) = (True, snd (gt911_init s))
      \<and> issued (snd (gt911_init s)) (snd (gt911_init (snd (gt911_init s)))) = []
      \<and> ((snd \<circ> gt911_init) ^^ n) (snd (gt911_init s)) = snd (gt911_init s))
   \<and> (initialized (gt911_dev t) \<longrightarrow>
        gt911_init t = (True, t)
        \<and> initialized (gt911_dev (snd (snd (gt911_read_touch out t)))))"
proof (intro conjI impI)
  assume ok: "fst (gt911_init s)"
  let ?s' = "snd (gt911_init s)"
  show i: "initialized (gt911_dev ?s')" using ok by (simp add: gt911_init_success_flag)
  show again: "gt911_init ?s' = (True, ?s')" using i by (rule gt911_init_again)
  show "issued ?s' (snd (gt911_init ?s')) = []" unfolding again by (simp add: issued_def)
  show "((snd \<circ> gt911_init) ^^ n) ?s' = ?s'"
    by (induction n) (simp_all add: again)
next
  assume i: "initialized (gt911_dev t)"
  show "gt911_init t = (True, t)" using i by (rule gt911_init_again)
  show "initialized (gt911_dev (snd (snd (gt911_read_touch out t))))"
    using i by (simp add: gt911_read_touch_dev)
qed

text \<open>
  Witness for C9: a second initialisation after a successful first one, and an
  initialisation of a driver that is already initialised.
\<close>

theorem gt911_init_idempotent_witness:
  "fst (gt911_init (snd (gt911_init (touch_boot (bus_script init_replies)))))
   \<and> issued (snd (gt911_init (touch_boot (bus_script init_replies))))
        (snd (gt911_init (snd (gt911_init (touch_boot (bus_script init_replies)))))) = []
   \<and> fst (gt911_init (touch_ready 7 9 (bus_script press_replies)))
   \<and> issued (touch_ready 7 9 (bus_script press_replies))
        (snd (gt911_init (touch_ready 7 9 (bus_script press_replies)))) = []"
proof -
  let ?w = "touch_boot (bus_script init_replies)"
  let ?t = "touch_ready 7 9 (bus_script press_replies)"
  have "\<forall>k<20. reply_ok ?w k" by (simp add: init_replies_ok)
  then have ok: "fst (gt911_init ?w)"
    by (intro gt911_init_ok(1)) simp_all
  have t: "initialized (gt911_dev ?t)" by simp
  note a = gt911_init_idempotent [of ?w 1 ?t "(0, 0, False)", THEN conjunct1, rule_format, OF ok]
  note b = gt911_init_idempotent [of ?w 1 ?t "(0, 0, False)", THEN conjunct2, rule_format, OF t]
  show ?thesis using a b by (simp add: issued_def)
qed

text \<open>
  C10. On an initialised driver whose status read succeeded with contact count 1 (so that
  the acknowledgment is due), the log of the call starts with the status read, then the
  acknowledgment write, then the address phase of the read of X low; no register write
  follows.
\<close>

theorem ack_precedes_coordinate_reads:
  assumes "initialized (gt911_dev s)" "reply_ok s 0" "reply_ok s 1"
    and "unat (reply_byte s 1) mod 16 = 1"
  shows "\<exists>rest. issued s (snd (snd (gt911_read_touch out s))) =
           [I2cWrite (i2c_addr (gt911_dev s)) [0x81, 0x4E] True,
            I2cRead (i2c_addr (gt911_dev s)) 1 False,
            I2cWrite (i2c_addr (gt911_dev s)) [0x81, 0x4E, 0x00] False,
            I2cWrite (i2c_addr (gt911_dev s)) [0x81, 0x50] True] @ rest
         \<and> register_writes rest = []"
proof -
  let ?t = "after_ack (after_read GT911_REG_STATUS s)"
  have rt: "gt911_read_touch out s = read_point out ?t"
    by (rule gt911_read_touch_one [OF assms])
  obtain rest where rest: "i2c_log (snd (snd (read_point out ?t))) =
      i2c_log ?t @ I2cWrite (i2c_addr (gt911_dev ?t)) [0x81, 0x50] True # rest"
      "register_writes rest = []"
    using read_point_issued [of out ?t] by blast
  have "issued s (snd (snd (gt911_read_touch out s))) =
      [I2cWrite (i2c_addr (gt911_dev s)) [0x81, 0x4E] True, I2cRead (i2c_addr (gt911_dev s)) 1 False,
       I2cWrite (i2c_addr (gt911_dev s)) [0x81, 0x4E, 0x00] False,
       I2cWrite (i2c_addr (gt911_dev s)) [0x81, 0x50] True] @ rest"
    unfolding rt by (rule issued_after) (simp add: rest ack_log status_log ack_event_def)
  then show ?thesis using rest(2) by blast
qed

text \<open>Witness for C10: the first four bus operations of a single-contact sample.\<close>

theorem ack_precedes_coordinate_reads_witness:
  "take 4 (issued (touch_ready 7 9 (bus_script press_replies))
     (snd (snd (gt911_read_touch (0, 0, False) (touch_ready 7 9 (bus_script press_replies))))))
   = [I2cWrite 0x5D [0x81, 0x4E] True, I2cRead 0x5D 1 False,
      I2cWrite 0x5D [0x81, 0x4E, 0x00] False, I2cWrite 0x5D [0x81, 0x50] True]"
proof -
  let ?w = "touch_ready 7 9 (bus_script press_replies)"
  have c: "unat (reply_byte ?w 1) mod 16 = 1" unfolding press_bytes by simp
  have w: "initialized (gt911_dev ?w)" "reply_ok ?w 0" "reply_ok ?w 1"
    by (simp_all add: press_replies_ok)
  from ack_precedes_coordinate_reads [OF w c, of "(0, 0, False)"]
  show ?thesis by auto
qed

end
